theory Spec2Isabelle
  imports Main
begin

section \<open>Strings\<close>

text \<open>
  A TypeScript string is modelled as a \<^typ>\<open>string\<close>, one \<^typ>\<open>char\<close> for each code unit.
  Every character test below is a test for an ASCII character, so a code unit that does
  not fit a \<^typ>\<open>char\<close> would take the same branch as any other non-matching character.
\<close>

definition startsWith :: "string \<Rightarrow> string \<Rightarrow> bool" where
  "startsWith s p = (take (length p) s = p)"

definition slice_from :: "nat \<Rightarrow> string \<Rightarrow> string" where
  "slice_from n s = drop n s"

definition padStart :: "nat \<Rightarrow> char \<Rightarrow> string \<Rightarrow> string" where
  "padStart n c s = replicate (n - length s) c @ s"

text \<open>\<^verbatim>\<open>Array.prototype.join\<close> on an array of strings.\<close>

fun join :: "string \<Rightarrow> string list \<Rightarrow> string" where
  "join sep [] = []"
| "join sep [x] = x"
| "join sep (x # y # ys) = x @ sep @ join sep (y # ys)"

section \<open>Aptos: address validation and normalisation\<close>

definition is_hex_char :: "char \<Rightarrow> bool" where
  "is_hex_char c = (c \<in> set ''0123456789abcdefABCDEF'')"

text \<open>The regular expression \<^verbatim>\<open>/^[0-9a-fA-F]+$/\<close>: one or more characters, all hexadecimal.\<close>

definition hexRegex_test :: "string \<Rightarrow> bool" where
  "hexRegex_test s = (s \<noteq> [] \<and> list_all is_hex_char s)"

definition isValidAddress :: "string \<Rightarrow> bool" where
  "isValidAddress address =
     (if \<not> startsWith address ''0x'' then False
      else let addressWithoutPrefix = slice_from 2 address in
        if \<not> hexRegex_test addressWithoutPrefix then False
        else if length addressWithoutPrefix > 64 then False
        else True)"

definition normalizeAddress :: "string \<Rightarrow> string option" where
  "normalizeAddress address =
     (if \<not> isValidAddress address then None
      else let addressWithoutPrefix = slice_from 2 address;
               normalizedAddressWithoutPrefix = padStart 64 (CHR ''0'') addressWithoutPrefix
           in Some (''0x'' @ normalizedAddressWithoutPrefix))"

section \<open>JavaScript values\<close>

text \<open>
  A parsed response body, a metadata value or a validated result is a JavaScript value.
  A number is an integer here: the status codes are the only numbers the modelled code
  reads. An object is the list of its own properties in insertion order.
\<close>

datatype json =
    JUndefined
  | JNull
  | JBool bool
  | JNum int
  | JStr string
  | JArr "json list"
  | JObj "(string \<times> json) list"

type_synonym js_object = "(string \<times> json) list"

text \<open>Truthiness, as \<^verbatim>\<open>if (v)\<close> and \<^verbatim>\<open>!v\<close> read it.\<close>

fun truthy :: "json \<Rightarrow> bool" where
  "truthy JUndefined = False"
| "truthy JNull = False"
| "truthy (JBool b) = b"
| "truthy (JNum n) = (n \<noteq> 0)"
| "truthy (JStr s) = (s \<noteq> [])"
| "truthy (JArr xs) = True"
| "truthy (JObj kvs) = True"

text \<open>
  The property read \<^verbatim>\<open>v.name\<close>, for the property names the clients read (none of them is
  a property of a string, a number, a boolean, an array or of \<^verbatim>\<open>Object.prototype\<close>):
  reading a property of \<^verbatim>\<open>null\<close> or \<^verbatim>\<open>undefined\<close> raises a TypeError, given here by
  its message.
\<close>

fun get_prop :: "json \<Rightarrow> string \<Rightarrow> string + json" where
  "get_prop JUndefined name =
     Inl (''Cannot read properties of undefined (reading '' @ [CHR 0x27] @ name @ [CHR 0x27] @ '')'')"
| "get_prop JNull name =
     Inl (''Cannot read properties of null (reading '' @ [CHR 0x27] @ name @ [CHR 0x27] @ '')'')"
| "get_prop (JObj kvs) name = Inr (case map_of kvs name of None \<Rightarrow> JUndefined | Some v \<Rightarrow> v)"
| "get_prop v name = Inr JUndefined"

text \<open>The assignment \<^verbatim>\<open>obj[name] = v\<close>: an own property keeps its place, a new one goes last.\<close>

fun set_prop :: "string \<Rightarrow> 'v \<Rightarrow> (string \<times> 'v) list \<Rightarrow> (string \<times> 'v) list" where
  "set_prop name v [] = [(name, v)]"
| "set_prop name v ((k, w) # kvs) =
     (if k = name then (k, v) # kvs else (k, w) # set_prop name v kvs)"

section \<open>The error classes\<close>

text \<open>
  \<^verbatim>\<open>SurepassErrorCodes\<close> and \<^verbatim>\<open>OpenExchangeErrorCodes\<close>: the own properties of the two
  tables of messages.
\<close>

definition SurepassErrorCodes :: "(string \<times> string) list" where
  "SurepassErrorCodes =
    [(''UNHANDLED_ERROR'', ''An unhandled error occurred.''),
     (''UNKNOWN_ERROR'', ''An unknown error occurred in Surepass.''),
     (''RESPONSE_ERROR'', ''Got an invalid response/response status: ${status}. Check details.''),
     (''INVALID_TOKEN'',
        ''The bearer token has either expired or is invalid or does not have access to this scope.''),
     (''RATE_LIMIT_EXCEEDED'',
        ''You have exceeded the rate limit for this API. Please try again later.''),
     (''SERVICE_UNAVAILABLE'',
        ''Surepass API's are down or facing issues. Please try again later.''),
     (''VERIFICATION_FAILED'', ''There is an issue with the data provided. Please re-check''),
     (''PARSE_ERROR'',
        ''The response from API did not match the expected format. See details for more information.''),
     (''UNKNOWN_RESPONSE_ERROR'', ''Received an unknown response status code from Surepass API.'')]"

definition OpenExchangeErrorCodes :: "(string \<times> string) list" where
  "OpenExchangeErrorCodes =
    [(''UNKNOWN_ERROR'', ''An unknown error occurred in Open Exchange.''),
     (''MISSING_APP_ID'', ''Application ID is required for the API request.''),
     (''CONFIG_INVALID_APP_ID'', ''Application ID must be a non-empty string.''),
     (''CONFIG_INVALID_BASE_CURRENCY'',
        ''Base currency must be a 3-character string, got ${baseCurrency}.''),
     (''INVALID_APP_ID'',
        ''Invalid application ID provided (expired or de-activated application id).''),
     (''NOT_FOUND'', ''The requested resource was not found.''),
     (''NOT_ALLOWED'', ''This operation is not allowed with the current application ID.''),
     (''RESPONSE_ERROR'',
        ''Got an invalid response/response status: ${status} from Open Exchange API.''),
     (''SERVICE_UNAVAILABLE'', ''Open Exchange service is currently unavailable.'')]"

text \<open>
  The read \<^verbatim>\<open>table[code]\<close> of an object literal finds an own property first and a property
  inherited from \<^verbatim>\<open>Object.prototype\<close> next; it is \<^verbatim>\<open>undefined\<close> for every other name.
  An inherited property is a function (or, for \<^verbatim>\<open>__proto__\<close>, the prototype object): it
  is truthy and it is not a message.
\<close>

datatype table_entry = Text string | Inherited

definition Object_prototype_names :: "string list" where
  "Object_prototype_names =
    [''constructor'', ''__defineGetter__'', ''__defineSetter__'', ''hasOwnProperty'',
     ''__lookupGetter__'', ''__lookupSetter__'', ''isPrototypeOf'', ''propertyIsEnumerable'',
     ''toString'', ''valueOf'', ''__proto__'', ''toLocaleString'']"

definition table_get :: "(string \<times> string) list \<Rightarrow> string \<Rightarrow> table_entry option" where
  "table_get table code =
     (case map_of table code of
        Some m \<Rightarrow> Some (Text m)
      | None \<Rightarrow> if code \<in> set Object_prototype_names then Some Inherited else None)"

fun entry_truthy :: "table_entry option \<Rightarrow> bool" where
  "entry_truthy None = False"
| "entry_truthy (Some (Text m)) = (m \<noteq> [])"
| "entry_truthy (Some Inherited) = True"

text \<open>
  What a client can throw or catch: an instance of one of the two error classes, a TypeError
  of the runtime, the value \<^verbatim>\<open>undefined\<close>, or a failure of another kind (of the transport,
  say), of a type \<open>'x\<close> left open. An instance of an error class is given by what its
  constructor hands to the constructor of \<^verbatim>\<open>BaseError\<close> (the entry of the table, the metadata
  and the cause, \<open>None\<close> for the cause \<^verbatim>\<open>undefined\<close>), together with the last value of the
  constructor's variable \<^verbatim>\<open>code\<close>. \<^verbatim>\<open>BaseError\<close> belongs to the package \<^verbatim>\<open>$utils\<close> and is not
  under src/: that it keeps the metadata as the error's \<^verbatim>\<open>context\<close>, an empty object when
  none was given, is what the tests of both clients read; what else its constructor does
  with these arguments, and whether it completes, is outside this type.
\<close>

datatype error_class = SurepassErrorClass | OpenExchangeErrorClass

datatype 'x thrown =
    DomainError (err_class: error_class) (err_code: string) (err_entry: "table_entry option")
      (err_context: js_object) (err_cause: "'x thrown option")
  | TypeError string
  | ThrownUndefined
  | Foreign 'x

fun is_domain_error :: "error_class \<Rightarrow> 'x thrown \<Rightarrow> bool" where
  "is_domain_error c (DomainError c' code entry ctx cause) = (c' = c)"
| "is_domain_error c (TypeError m) = False"
| "is_domain_error c ThrownUndefined = False"
| "is_domain_error c (Foreign x) = False"

text \<open>
  The two constructors are the same code over the two tables:
  \<^verbatim>\<open>if (!table[code]) { if (!meta) meta = {}; meta.originalCode = code; code = 'UNKNOWN_ERROR' }
  super(table[code], meta, cause)\<close>.
\<close>

definition new_error ::
  "error_class \<Rightarrow> (string \<times> string) list \<Rightarrow> string \<Rightarrow> js_object option \<Rightarrow> 'x thrown option \<Rightarrow> 'x thrown" where
  "new_error cls table code meta cause =
     (if \<not> entry_truthy (table_get table code) then
        let meta1 = (case meta of None \<Rightarrow> [] | Some m \<Rightarrow> m);
            meta2 = set_prop ''originalCode'' (JStr code) meta1;
            code2 = ''UNKNOWN_ERROR''
        in DomainError cls code2 (table_get table code2) meta2 cause
      else DomainError cls code (table_get table code)
             (case meta of None \<Rightarrow> [] | Some m \<Rightarrow> m) cause)"

definition SurepassError :: "string \<Rightarrow> js_object option \<Rightarrow> 'x thrown option \<Rightarrow> 'x thrown" where
  "SurepassError = new_error SurepassErrorClass SurepassErrorCodes"

definition OpenExchangeError :: "string \<Rightarrow> js_object option \<Rightarrow> 'x thrown option \<Rightarrow> 'x thrown" where
  "OpenExchangeError = new_error OpenExchangeErrorClass OpenExchangeErrorCodes"

section \<open>Schemas\<close>

text \<open>
  Modelled from the spec: the validation library Guardian (package \<^verbatim>\<open>$guardian\<close>) is not
  under src/; the schema declarations are. The spec says that validation is structural and
  exhaustive: every declared field is checked, unknown extra fields are ignored, and a missing
  required field or a type mismatch fails the whole validation. \<^verbatim>\<open>validate\<close> returns the pair
  \<^verbatim>\<open>[error, value]\<close>, with \<^verbatim>\<open>null\<close> for the error of a valid value, as the schema tests
  read it. The response handlers below take every validator as an argument, so what is proved
  of them holds for every validator; the schemas of this section are the arguments of the
  concrete examples. The modifier \<^verbatim>\<open>upperCase()\<close> of the field \<^verbatim>\<open>message_code\<close> is left out.
\<close>

datatype guardian_error = GuardianError (causes: "string list")

definition listCauses :: "guardian_error \<Rightarrow> json" where
  "listCauses e = JArr (map JStr (causes e))"

definition toJSON :: "guardian_error \<Rightarrow> json" where
  "toJSON e = JObj [(''causes'', JArr (map JStr (causes e)))]"

datatype guard =
    GString
  | GStringMinLength nat
  | GStringLength nat nat
  | GStringNotEmpty
  | GStringIn "string list"
  | GNumber
  | GNumberInteger
  | GNumberMin int
  | GNumberPositive
  | GNumberIn "int list"
  | GBoolean
  | GBooleanEquals bool
  | GObject
  | GKeyValue guard guard

fun guard_ok :: "guard \<Rightarrow> json \<Rightarrow> bool" where
  "guard_ok GString v = (case v of JStr s \<Rightarrow> True | _ \<Rightarrow> False)"
| "guard_ok (GStringMinLength lo) v = (case v of JStr s \<Rightarrow> lo \<le> length s | _ \<Rightarrow> False)"
| "guard_ok (GStringLength lo hi) v =
     (case v of JStr s \<Rightarrow> lo \<le> length s \<and> length s \<le> hi | _ \<Rightarrow> False)"
| "guard_ok GStringNotEmpty v = (case v of JStr s \<Rightarrow> s \<noteq> [] | _ \<Rightarrow> False)"
| "guard_ok (GStringIn xs) v = (case v of JStr s \<Rightarrow> s \<in> set xs | _ \<Rightarrow> False)"
| "guard_ok GNumber v = (case v of JNum n \<Rightarrow> True | _ \<Rightarrow> False)"
| "guard_ok GNumberInteger v = (case v of JNum n \<Rightarrow> True | _ \<Rightarrow> False)"
| "guard_ok (GNumberMin lo) v = (case v of JNum n \<Rightarrow> lo \<le> n | _ \<Rightarrow> False)"
| "guard_ok GNumberPositive v = (case v of JNum n \<Rightarrow> 0 < n | _ \<Rightarrow> False)"
| "guard_ok (GNumberIn xs) v = (case v of JNum n \<Rightarrow> n \<in> set xs | _ \<Rightarrow> False)"
| "guard_ok GBoolean v = (case v of JBool b \<Rightarrow> True | _ \<Rightarrow> False)"
| "guard_ok (GBooleanEquals c) v = (case v of JBool b \<Rightarrow> b = c | _ \<Rightarrow> False)"
| "guard_ok GObject v = (case v of JObj kvs \<Rightarrow> True | _ \<Rightarrow> False)"
| "guard_ok (GKeyValue kg vg) v =
     (case v of
        JObj kvs \<Rightarrow> list_all (\<lambda>(k, w). guard_ok kg (JStr k) \<and> guard_ok vg w) kvs
      | _ \<Rightarrow> False)"

text \<open>A declared field: its name, its guard, and whether it is \<^verbatim>\<open>optional()\<close>.\<close>

type_synonym field_decl = "string \<times> guard \<times> bool"

fun field_ok :: "js_object \<Rightarrow> field_decl \<Rightarrow> bool" where
  "field_ok kvs (name, g, opt) =
     (case map_of kvs name of
        None \<Rightarrow> opt
      | Some v \<Rightarrow> if v = JUndefined then opt else guard_ok g v)"

text \<open>\<^verbatim>\<open>Guardian.object().schema({...}).validate(body)\<close>\<close>

definition schema_validate :: "field_decl list \<Rightarrow> json \<Rightarrow> guardian_error option \<times> json" where
  "schema_validate fields body =
     (case body of
        JObj kvs \<Rightarrow>
          (let bad = filter (\<lambda>f. \<not> field_ok kvs f) fields
           in if bad = [] then (None, body)
              else (Some (GuardianError (map fst bad)), JUndefined))
      | _ \<Rightarrow> (Some (GuardianError [''Expected value to be an object'']), JUndefined))"

text \<open>\<^verbatim>\<open>guard.validate(body)\<close> of a guard that is not a schema\<close>

definition guard_validate :: "guard \<Rightarrow> json \<Rightarrow> guardian_error option \<times> json" where
  "guard_validate g body =
     (if guard_ok g body then (None, body)
      else (Some (GuardianError [''Value does not match the guard'']), JUndefined))"

text \<open>The schema declarations of src/surepass/schemas and src/openexchange/schema.\<close>

definition SurepassResponseSchema :: "field_decl list" where
  "SurepassResponseSchema =
    [(''status_code'', GNumberInteger, True),
     (''success'', GBoolean, True),
     (''message'', GString, True),
     (''message_code'', GString, True),
     (''data'', GObject, True)]"

definition SurepassNameMatchSchema :: "field_decl list" where
  "SurepassNameMatchSchema =
    [(''client_id'', GString, False),
     (''name_1'', GString, False),
     (''name_2'', GString, False),
     (''match_score'', GNumber, False),
     (''match_status'', GBoolean, False)]"

definition ErrorSchemaObject :: "field_decl list" where
  "ErrorSchemaObject =
    [(''error'', GBooleanEquals True, False),
     (''status'', GNumberIn [400, 401, 403, 404, 429], False),
     (''message'', GStringIn [''not_found'', ''missing_app_id'', ''invalid_app_id'',
        ''not_allowed'', ''access_restricted'', ''invalid_base''], False),
     (''description'', GString, False)]"

definition RateSchemaObject :: guard where
  "RateSchemaObject = GKeyValue (GStringLength 3 3) GNumberPositive"

definition LatestRatesSchemaObject :: "field_decl list" where
  "LatestRatesSchemaObject =
    [(''disclaimer'', GStringMinLength 5, True),
     (''license'', GStringMinLength 5, True),
     (''timestamp'', GNumberMin 0, True),
     (''base'', GStringLength 3 3, True),
     (''rates'', RateSchemaObject, False)]"

definition CurrenciesSchemaObject :: guard where
  "CurrenciesSchemaObject = GKeyValue (GStringLength 3 3) GStringNotEmpty"

section \<open>Responses and outcomes\<close>

text \<open>
  The response of the transport, with the two fields the clients read, and the outcome of a
  call: a returned value or a thrown one.
\<close>

record response =
  status :: int
  body :: json

datatype ('a, 'x) outcome = Return 'a | Throw "'x thrown"

definition read_prop :: "json \<Rightarrow> string \<Rightarrow> (json \<Rightarrow> ('a, 'x) outcome) \<Rightarrow> ('a, 'x) outcome" where
  "read_prop v name k = (case get_prop v name of Inl m \<Rightarrow> Throw (TypeError m) | Inr w \<Rightarrow> k w)"

section \<open>Surepass: the response handler\<close>

text \<open>
  \<^verbatim>\<open>Surepass.__checkAPIResponse\<close>. The arguments \<open>schema\<close> and \<open>list_causes\<close> stand for
  \<^verbatim>\<open>SurepassResponseSchema.validate\<close> and for the method \<^verbatim>\<open>listCauses\<close> of a validation error.
  The non-null assertion of \<^verbatim>\<open>resp.body!.status_code\<close> is erased by the compiler: the read is
  a plain property read.
\<close>

definition checkAPIResponse ::
  "(json \<Rightarrow> 'e option \<times> json) \<Rightarrow> ('e \<Rightarrow> json) \<Rightarrow> response \<Rightarrow>
     (json \<Rightarrow> 'e option \<times> json) option \<Rightarrow> (json, 'x) outcome" where
  "checkAPIResponse schema list_causes resp validator =
     (case schema (body resp) of (error, respObj) \<Rightarrow>
        if error \<noteq> None \<or> \<not> truthy respObj then
          read_prop (body resp) ''status_code'' (\<lambda>st.
            Throw (SurepassError ''RESPONSE_ERROR''
              (Some [(''status'', st),
                     (''details'', (case error of Some e \<Rightarrow> list_causes e
                                    | None \<Rightarrow> JStr ''No response body received''))])
              None))
        else
          read_prop respObj ''success'' (\<lambda>success.
            if success = JBool False then
              read_prop respObj ''status_code'' (\<lambda>sc.
                let code =
                   (if sc = JNum 500 then ''SERVICE_UNAVAILABLE''
                    else if sc = JNum 422 then ''VERIFICATION_FAILED''
                    else if sc = JNum 401 then ''INVALID_TOKEN''
                    else if sc = JNum 429 then ''RATE_LIMIT_EXCEEDED''
                    else ''UNKNOWN_RESPONSE_ERROR'')
                in read_prop (body resp) ''status_code'' (\<lambda>st.
                   read_prop respObj ''message'' (\<lambda>msg.
                   read_prop respObj ''data'' (\<lambda>d.
                     Throw (SurepassError code
                       (Some [(''statusCode'', st), (''message'', msg), (''details'', d)])
                       None)))))
            else
              (case validator of
                 Some validate \<Rightarrow>
                   read_prop respObj ''data'' (\<lambda>d.
                     (case validate d of (validationError, validatedData) \<Rightarrow>
                        (case validationError of
                           Some ve \<Rightarrow>
                             Throw (SurepassError ''PARSE_ERROR''
                               (Some [(''details'', list_causes ve)]) None)
                         | None \<Rightarrow> Return validatedData)))
               | None \<Rightarrow> read_prop respObj ''data'' Return)))"

section \<open>OpenExchange: the response handler\<close>

text \<open>
  \<^verbatim>\<open>OpenExchange.__handle\<close>. The arguments \<open>errorSchema\<close> and \<open>json_of\<close> stand for
  \<^verbatim>\<open>ErrorSchemaObject.validate\<close> and for the method \<^verbatim>\<open>toJSON\<close> of a validation error; \<open>guard\<close>
  is the method \<^verbatim>\<open>validate\<close> of the guard of the operation.
\<close>

definition error_meta :: "response \<Rightarrow> js_object" where
  "error_meta resp = [(''status'', JNum (status resp)), (''body'', body resp)]"

definition handle ::
  "(json \<Rightarrow> 'e option \<times> json) \<Rightarrow> ('e \<Rightarrow> json) \<Rightarrow> response \<Rightarrow>
     (json \<Rightarrow> 'e option \<times> json) \<Rightarrow> (json, 'x) outcome" where
  "handle errorSchema json_of resp guard =
     (if status resp = 200 then
        (case guard (body resp) of (err, b) \<Rightarrow>
           if err \<noteq> None then
             Throw (OpenExchangeError ''RESPONSE_ERROR'' (Some (error_meta resp)) None)
           else Return b)
      else if status resp \<in> {401, 400, 403, 404, 429} then
        (case errorSchema (body resp) of (err, b) \<Rightarrow>
           if truthy b then
             read_prop b ''message'' (\<lambda>message.
               if message = JStr ''not_found'' then
                 Throw (OpenExchangeError ''NOT_FOUND'' (Some (error_meta resp)) None)
               else if message = JStr ''missing_app_id'' then
                 Throw (OpenExchangeError ''MISSING_APP_ID'' (Some (error_meta resp)) None)
               else if message = JStr ''invalid_app_id'' then
                 Throw (OpenExchangeError ''INVALID_APP_ID'' (Some (error_meta resp)) None)
               else if message = JStr ''not_allowed'' \<or> message = JStr ''access_restricted'' then
                 Throw (OpenExchangeError ''NOT_ALLOWED'' (Some (error_meta resp)) None)
               else
                 Throw (OpenExchangeError ''RESPONSE_ERROR'' (Some (error_meta resp)) None))
           else
             (case err of
                None \<Rightarrow> Throw (TypeError ''Cannot read properties of null (reading 'toJSON')'')
              | Some e \<Rightarrow>
                  Throw (OpenExchangeError ''RESPONSE_ERROR''
                    (Some (error_meta resp @ [(''responseError'', json_of e)])) None)))
      else
        (case guard (body resp) of (err, b) \<Rightarrow>
           (case err of
              Some e \<Rightarrow>
                Throw (OpenExchangeError ''SERVICE_UNAVAILABLE''
                  (Some (error_meta resp @ [(''responseError'', json_of e)])) None)
            | None \<Rightarrow> Return b)))"

section \<open>Requests and the transport\<close>

text \<open>
  The two arguments of \<^verbatim>\<open>_makeRequest\<close>, the endpoint and the options of the call, as one
  record. The transport is an argument \<open>makeRequest\<close> of every operation: it returns a
  response or throws.
\<close>

record request =
  path :: string
  query :: "(string \<times> string) list option"
  req_method :: string
  req_contentType :: "string option"
  payload :: "json option"

type_synonym 'x transport = "request \<Rightarrow> 'x thrown + response"

text \<open>\<^verbatim>\<open>trim()\<close> removes the white space and the line terminators at both ends.\<close>

definition is_space :: "char \<Rightarrow> bool" where
  "is_space c = (c \<in> {CHR '' '', CHR 0x09, CHR 0x0A, CHR 0x0B, CHR 0x0C, CHR 0x0D, CHR 0xA0})"

definition trim :: "string \<Rightarrow> string" where
  "trim s = rev (dropWhile is_space (rev (dropWhile is_space s)))"

section \<open>Surepass: the constructor and the operations\<close>

text \<open>
  The options of the constructor: \<open>mode\<close> is whatever value the caller passed, the other
  options of \<^verbatim>\<open>RESTlerOptions\<close> are the rest of the record. The constructor of the parent
  class is the argument \<open>super\<close>.
\<close>

record surepass_options =
  mode :: json
  baseURL :: "string option"
  version :: "string option"
  contentType :: "string option"
  timeout :: "int option"
  headers :: "(string \<times> string) list option"

definition Surepass_options :: "'a surepass_options_scheme \<Rightarrow> 'a surepass_options_scheme" where
  "Surepass_options options =
     (let options1 =
            (if mode options = JStr ''SANDBOX''
             then options\<lparr>baseURL := Some ''https://sandbox.surepass.app/api/{version}''\<rparr>
             else options\<lparr>baseURL := Some ''https://kyc-api.surepass.app/api/{version}''\<rparr>)
      in options1\<lparr>version := Some ''v1'', contentType := Some ''JSON'', timeout := Some 10,
           headers := Some [(''Content-Type'', ''application/json''),
                            (''Accept'', ''application/json'')]\<rparr>)"

definition Surepass_constructor ::
  "('a surepass_options_scheme \<Rightarrow> 'r) \<Rightarrow> 'a surepass_options_scheme \<Rightarrow> 'r" where
  "Surepass_constructor super options = super (Surepass_options options)"

text \<open>
  The \<^verbatim>\<open>catch\<close> block of every operation: an instance of \<^verbatim>\<open>SurepassError\<close> gets the
  endpoint in its context and is thrown again; anything else is handed to the constructor of
  a new \<^verbatim>\<open>UNHANDLED_ERROR\<close> as its cause, which is no cause when the caught value is
  \<^verbatim>\<open>undefined\<close>.
\<close>

fun surepass_catch :: "string \<Rightarrow> 'x thrown \<Rightarrow> 'x thrown" where
  "surepass_catch endpoint (DomainError SurepassErrorClass code entry ctx cause) =
     DomainError SurepassErrorClass code entry (set_prop ''endpoint'' (JStr endpoint) ctx) cause"
| "surepass_catch endpoint ThrownUndefined =
     SurepassError ''UNHANDLED_ERROR'' (Some [(''endpoint'', JStr endpoint)]) None"
| "surepass_catch endpoint e =
     SurepassError ''UNHANDLED_ERROR'' (Some [(''endpoint'', JStr endpoint)]) (Some e)"

text \<open>
  The body the seven operations share: the request to the endpoint, the response handler,
  the \<^verbatim>\<open>catch\<close> block. (\<^verbatim>\<open>verifyCIN\<close> also writes the body of the response to the console.)
\<close>

definition surepass_request :: "string \<Rightarrow> json \<Rightarrow> request" where
  "surepass_request endpoint pl =
     \<lparr>path = endpoint, query = None, req_method = ''POST'', req_contentType = Some ''JSON'',
      payload = Some pl\<rparr>"

definition surepass_call ::
  "'x transport \<Rightarrow> (json \<Rightarrow> 'e option \<times> json) \<Rightarrow> ('e \<Rightarrow> json) \<Rightarrow>
     (json \<Rightarrow> 'e option \<times> json) \<Rightarrow> string \<Rightarrow> json \<Rightarrow> (json, 'x) outcome" where
  "surepass_call makeRequest schema list_causes validator endpoint pl =
     (case (case makeRequest (surepass_request endpoint pl) of
              Inl cause \<Rightarrow> Throw cause
            | Inr resp \<Rightarrow> checkAPIResponse schema list_causes resp (Some validator)) of
        Return data \<Rightarrow> Return data
      | Throw cause \<Rightarrow> Throw (surepass_catch endpoint cause))"

definition compareNames ::
  "'x transport \<Rightarrow> (json \<Rightarrow> 'e option \<times> json) \<Rightarrow> ('e \<Rightarrow> json) \<Rightarrow>
     (json \<Rightarrow> 'e option \<times> json) \<Rightarrow> string \<Rightarrow> string \<Rightarrow> bool \<Rightarrow> (json, 'x) outcome" where
  "compareNames makeRequest schema list_causes validator name1 name2 isCompany =
     surepass_call makeRequest schema list_causes validator ''utils/name-matching/''
       (JObj [(''name_1'', JStr (trim name1)), (''name_2'', JStr (trim name2)),
              (''name_type'', JStr (if isCompany then ''company'' else ''person''))])"

definition verifyBankAccount ::
  "'x transport \<Rightarrow> (json \<Rightarrow> 'e option \<times> json) \<Rightarrow> ('e \<Rightarrow> json) \<Rightarrow>
     (json \<Rightarrow> 'e option \<times> json) \<Rightarrow> string \<Rightarrow> string \<Rightarrow> (json, 'x) outcome" where
  "verifyBankAccount makeRequest schema list_causes validator accountNumber ifsc =
     surepass_call makeRequest schema list_causes validator ''bank-verification''
       (JObj [(''id_number'', JStr accountNumber), (''ifsc'', JStr ifsc),
              (''ifsc_details'', JBool True)])"

definition verifyPAN ::
  "'x transport \<Rightarrow> (json \<Rightarrow> 'e option \<times> json) \<Rightarrow> ('e \<Rightarrow> json) \<Rightarrow>
     (json \<Rightarrow> 'e option \<times> json) \<Rightarrow> string \<Rightarrow> (json, 'x) outcome" where
  "verifyPAN makeRequest schema list_causes validator pan =
     surepass_call makeRequest schema list_causes validator ''pan/pan-comprehensive-plus''
       (JObj [(''id_number'', JStr pan)])"

definition initiateAadhaar ::
  "'x transport \<Rightarrow> (json \<Rightarrow> 'e option \<times> json) \<Rightarrow> ('e \<Rightarrow> json) \<Rightarrow>
     (json \<Rightarrow> 'e option \<times> json) \<Rightarrow> string \<Rightarrow> (json, 'x) outcome" where
  "initiateAadhaar makeRequest schema list_causes validator aadhaar =
     surepass_call makeRequest schema list_causes validator ''aadhaar-v2/generate-otp''
       (JObj [(''id_number'', JStr aadhaar)])"

definition fetchAadhaar ::
  "'x transport \<Rightarrow> (json \<Rightarrow> 'e option \<times> json) \<Rightarrow> ('e \<Rightarrow> json) \<Rightarrow>
     (json \<Rightarrow> 'e option \<times> json) \<Rightarrow> string \<Rightarrow> string \<Rightarrow> (json, 'x) outcome" where
  "fetchAadhaar makeRequest schema list_causes validator clientId otp =
     surepass_call makeRequest schema list_causes validator ''aadhaar-v2/submit-otp''
       (JObj [(''client_id'', JStr clientId), (''otp'', JStr otp)])"

definition verifyCIN ::
  "'x transport \<Rightarrow> (json \<Rightarrow> 'e option \<times> json) \<Rightarrow> ('e \<Rightarrow> json) \<Rightarrow>
     (json \<Rightarrow> 'e option \<times> json) \<Rightarrow> string \<Rightarrow> (json, 'x) outcome" where
  "verifyCIN makeRequest schema list_causes validator cin =
     surepass_call makeRequest schema list_causes validator ''corporate/company-details''
       (JObj [(''id_number'', JStr cin)])"

definition verifyGSTIN ::
  "'x transport \<Rightarrow> (json \<Rightarrow> 'e option \<times> json) \<Rightarrow> ('e \<Rightarrow> json) \<Rightarrow>
     (json \<Rightarrow> 'e option \<times> json) \<Rightarrow> string \<Rightarrow> (json, 'x) outcome" where
  "verifyGSTIN makeRequest schema list_causes validator gstin =
     surepass_call makeRequest schema list_causes validator ''corporate/gstin''
       (JObj [(''id_number'', JStr gstin)])"

section \<open>OpenExchange: the requests and the operations\<close>

text \<open>
  A property of an options object that may be missing, present with the value
  \<^verbatim>\<open>undefined\<close>, or present with a value: the spread \<^verbatim>\<open>{...{base: d}, ...options}\<close> keeps
  the default \<open>d\<close> only for a missing property.
\<close>

datatype 'a field = Absent | Undefined | Present 'a

record rate_options =
  base :: "string field"
  symbols :: "string list option"

text \<open>
  The built-in methods \<^verbatim>\<open>String.prototype.toUpperCase\<close> and \<^verbatim>\<open>Number.prototype.toString\<close> are
  arguments \<open>toUpperCase\<close> and \<open>toString\<close> of what follows, and the amount of a conversion
  is a number of a type \<open>'n\<close> left open: what is proved holds for every function in their
  place.

  The query of \<^verbatim>\<open>getRates\<close>, \<^verbatim>\<open>getHistoricalRates\<close>, \<^verbatim>\<open>getTimeSeries\<close> and \<^verbatim>\<open>getOHLC\<close>,
  from the query the operation starts with, the configured \<^verbatim>\<open>baseCurrency\<close> and the
  options of the call.
\<close>

definition rates_query ::
  "(string \<Rightarrow> string) \<Rightarrow> (string \<times> string) list \<Rightarrow> string option \<Rightarrow> rate_options option \<Rightarrow>
     (string \<times> string) list" where
  "rates_query toUpperCase query0 baseCurrency options =
     (let dflt = (case baseCurrency of Some b \<Rightarrow> if b \<noteq> [] then b else ''USD'' | None \<Rightarrow> ''USD'');
          base1 = (case options of
                     None \<Rightarrow> Present dflt
                   | Some opts \<Rightarrow> (case base opts of Absent \<Rightarrow> Present dflt | b \<Rightarrow> b));
          symbols1 = (case options of None \<Rightarrow> None | Some opts \<Rightarrow> symbols opts);
          query1 = (case base1 of
                      Present b \<Rightarrow>
                        if b \<noteq> [] then set_prop ''base'' (toUpperCase b) query0 else query0
                    | _ \<Rightarrow> query0)
      in (case symbols1 of
            Some syms \<Rightarrow>
              if length syms > 0
              then set_prop ''symbols'' (join '','' (map toUpperCase syms)) query1
              else query1
          | None \<Rightarrow> query1))"

definition get_request :: "string \<Rightarrow> (string \<times> string) list option \<Rightarrow> request" where
  "get_request p q =
     \<lparr>path = p, query = q, req_method = ''GET'', req_contentType = None, payload = None\<rparr>"

definition getStatus_request :: request where
  "getStatus_request = get_request ''/status.json'' None"

definition listCurrencies_request :: request where
  "listCurrencies_request = get_request ''/currencies.json'' None"

definition getRates_request ::
  "(string \<Rightarrow> string) \<Rightarrow> string option \<Rightarrow> rate_options option \<Rightarrow> request" where
  "getRates_request toUpperCase baseCurrency options =
     get_request ''/latest.json'' (Some (rates_query toUpperCase [] baseCurrency options))"

definition getHistoricalRates_request ::
  "(string \<Rightarrow> string) \<Rightarrow> string option \<Rightarrow> string \<Rightarrow> rate_options option \<Rightarrow> request" where
  "getHistoricalRates_request toUpperCase baseCurrency date options =
     get_request (''/historical/'' @ date @ ''.json'')
       (Some (rates_query toUpperCase [] baseCurrency options))"

definition getTimeSeries_request ::
  "(string \<Rightarrow> string) \<Rightarrow> string option \<Rightarrow> string \<Rightarrow> string \<Rightarrow> rate_options option \<Rightarrow>
     request" where
  "getTimeSeries_request toUpperCase baseCurrency startDate endDate options =
     get_request ''/time-series.json''
       (Some (rates_query toUpperCase [(''start'', startDate), (''end'', endDate)]
                baseCurrency options))"

definition getOHLC_request ::
  "(string \<Rightarrow> string) \<Rightarrow> string option \<Rightarrow> string \<Rightarrow> string \<Rightarrow> rate_options option \<Rightarrow>
     request" where
  "getOHLC_request toUpperCase baseCurrency startDate period options =
     get_request ''/ohlc.json''
       (Some (rates_query toUpperCase [(''start_date'', startDate), (''period'', period)]
                baseCurrency options))"

text \<open>\<^verbatim>\<open>convert\<close>: the option \<^verbatim>\<open>date\<close> is sent when it is a non-empty string.\<close>

definition convert_query ::
  "(string \<Rightarrow> string) \<Rightarrow> ('n \<Rightarrow> string) \<Rightarrow> 'n \<Rightarrow> string \<Rightarrow> string \<Rightarrow> string option \<Rightarrow>
     (string \<times> string) list" where
  "convert_query toUpperCase toString amount from to date =
     (let query0 = [(''amount'', toString amount), (''from'', toUpperCase from),
                    (''to'', toUpperCase to)]
      in (case date of
            Some d \<Rightarrow> if d \<noteq> [] then set_prop ''date'' d query0 else query0
          | None \<Rightarrow> query0))"

definition convert_request ::
  "(string \<Rightarrow> string) \<Rightarrow> ('n \<Rightarrow> string) \<Rightarrow> 'n \<Rightarrow> string \<Rightarrow> string \<Rightarrow> string option \<Rightarrow>
     request" where
  "convert_request toUpperCase toString amount from to date =
     get_request ''/convert.json'' (Some (convert_query toUpperCase toString amount from to date))"

text \<open>
  The body the operations share: the request, then the response handler. There is no
  \<^verbatim>\<open>try\<close> around either: what the transport throws leaves the operation as it is.
\<close>

definition openexchange_call ::
  "'x transport \<Rightarrow> (json \<Rightarrow> 'e option \<times> json) \<Rightarrow> ('e \<Rightarrow> json) \<Rightarrow>
     (json \<Rightarrow> 'e option \<times> json) \<Rightarrow> request \<Rightarrow> (json, 'x) outcome" where
  "openexchange_call makeRequest errorSchema json_of guard req =
     (case makeRequest req of
        Inl cause \<Rightarrow> Throw cause
      | Inr resp \<Rightarrow> handle errorSchema json_of resp guard)"

text \<open>\<^verbatim>\<open>getRates\<close> returns the property \<^verbatim>\<open>rates\<close> of the validated body.\<close>

definition getRates ::
  "'x transport \<Rightarrow> (json \<Rightarrow> 'e option \<times> json) \<Rightarrow> ('e \<Rightarrow> json) \<Rightarrow>
     (json \<Rightarrow> 'e option \<times> json) \<Rightarrow> (string \<Rightarrow> string) \<Rightarrow> string option \<Rightarrow>
     rate_options option \<Rightarrow> (json, 'x) outcome" where
  "getRates makeRequest errorSchema json_of guard toUpperCase baseCurrency options =
     (case openexchange_call makeRequest errorSchema json_of guard
             (getRates_request toUpperCase baseCurrency options) of
        Return ratesData \<Rightarrow> read_prop ratesData ''rates'' Return
      | Throw e \<Rightarrow> Throw e)"

definition getStatus ::
  "'x transport \<Rightarrow> (json \<Rightarrow> 'e option \<times> json) \<Rightarrow> ('e \<Rightarrow> json) \<Rightarrow>
     (json \<Rightarrow> 'e option \<times> json) \<Rightarrow> (json, 'x) outcome" where
  "getStatus makeRequest errorSchema json_of guard =
     openexchange_call makeRequest errorSchema json_of guard getStatus_request"

definition listCurrencies ::
  "'x transport \<Rightarrow> (json \<Rightarrow> 'e option \<times> json) \<Rightarrow> ('e \<Rightarrow> json) \<Rightarrow>
     (json \<Rightarrow> 'e option \<times> json) \<Rightarrow> (json, 'x) outcome" where
  "listCurrencies makeRequest errorSchema json_of guard =
     openexchange_call makeRequest errorSchema json_of guard listCurrencies_request"

definition getHistoricalRates ::
  "'x transport \<Rightarrow> (json \<Rightarrow> 'e option \<times> json) \<Rightarrow> ('e \<Rightarrow> json) \<Rightarrow>
     (json \<Rightarrow> 'e option \<times> json) \<Rightarrow> (string \<Rightarrow> string) \<Rightarrow> string option \<Rightarrow> string \<Rightarrow>
     rate_options option \<Rightarrow> (json, 'x) outcome" where
  "getHistoricalRates makeRequest errorSchema json_of guard toUpperCase baseCurrency date options =
     openexchange_call makeRequest errorSchema json_of guard
       (getHistoricalRates_request toUpperCase baseCurrency date options)"

definition getTimeSeries ::
  "'x transport \<Rightarrow> (json \<Rightarrow> 'e option \<times> json) \<Rightarrow> ('e \<Rightarrow> json) \<Rightarrow>
     (json \<Rightarrow> 'e option \<times> json) \<Rightarrow> (string \<Rightarrow> string) \<Rightarrow> string option \<Rightarrow> string \<Rightarrow>
     string \<Rightarrow> rate_options option \<Rightarrow> (json, 'x) outcome" where
  "getTimeSeries makeRequest errorSchema json_of guard toUpperCase baseCurrency startDate endDate
       options =
     openexchange_call makeRequest errorSchema json_of guard
       (getTimeSeries_request toUpperCase baseCurrency startDate endDate options)"

definition convert ::
  "'x transport \<Rightarrow> (json \<Rightarrow> 'e option \<times> json) \<Rightarrow> ('e \<Rightarrow> json) \<Rightarrow>
     (json \<Rightarrow> 'e option \<times> json) \<Rightarrow> (string \<Rightarrow> string) \<Rightarrow> ('n \<Rightarrow> string) \<Rightarrow> 'n \<Rightarrow>
     string \<Rightarrow> string \<Rightarrow> string option \<Rightarrow> (json, 'x) outcome" where
  "convert makeRequest errorSchema json_of guard toUpperCase toString amount from to date =
     openexchange_call makeRequest errorSchema json_of guard
       (convert_request toUpperCase toString amount from to date)"

definition getOHLC ::
  "'x transport \<Rightarrow> (json \<Rightarrow> 'e option \<times> json) \<Rightarrow> ('e \<Rightarrow> json) \<Rightarrow>
     (json \<Rightarrow> 'e option \<times> json) \<Rightarrow> (string \<Rightarrow> string) \<Rightarrow> string option \<Rightarrow> string \<Rightarrow>
     string \<Rightarrow> rate_options option \<Rightarrow> (json, 'x) outcome" where
  "getOHLC makeRequest errorSchema json_of guard toUpperCase baseCurrency startDate period options =
     openexchange_call makeRequest errorSchema json_of guard
       (getOHLC_request toUpperCase baseCurrency startDate period options)"

text \<open>
  Arguments of the concrete examples. Two transports: one answers every request alike, one
  always throws. The two built-in methods on the values of the examples:
  \<^verbatim>\<open>toUpperCase\<close> on ASCII text, where it replaces the letters a to z by A to Z and keeps
  every other character, and \<^verbatim>\<open>toString\<close> on a whole number from 0 to below ten to the power 21,
  where it writes the decimal digits.
\<close>

definition lower_letters :: string where
  "lower_letters = ''abcdefghijklmnopqrstuvwxyz''"

definition upper_letters :: string where
  "upper_letters = ''ABCDEFGHIJKLMNOPQRSTUVWXYZ''"

definition ascii_upper_char :: "char \<Rightarrow> char" where
  "ascii_upper_char c =
     (case map_of (zip lower_letters upper_letters) c of Some u \<Rightarrow> u | None \<Rightarrow> c)"

definition ascii_toUpperCase :: "string \<Rightarrow> string" where
  "ascii_toUpperCase s = map ascii_upper_char s"

fun whole_toString :: "nat \<Rightarrow> string" where
  "whole_toString n =
     (if n < 10 then [''0123456789'' ! n]
      else whole_toString (n div 10) @ [''0123456789'' ! (n mod 10)])"

declare whole_toString.simps [simp del]

definition answering :: "response \<Rightarrow> 'x transport" where
  "answering resp req = Inr resp"

definition failing :: "'x thrown \<Rightarrow> 'x transport" where
  "failing e req = Inl e"

section \<open>Observations and example values\<close>

text \<open>
  An outcome that throws an instance of the class \<open>cls\<close> with the code \<open>c\<close>: the constructor
  ended with that code and handed the message of that code to \<^verbatim>\<open>BaseError\<close>.
\<close>

fun error_codes :: "error_class \<Rightarrow> (string \<times> string) list" where
  "error_codes SurepassErrorClass = SurepassErrorCodes"
| "error_codes OpenExchangeErrorClass = OpenExchangeErrorCodes"

fun throws_code :: "error_class \<Rightarrow> string \<Rightarrow> ('a, 'x) outcome \<Rightarrow> bool" where
  "throws_code cls c (Throw e) =
     (is_domain_error cls e \<and> err_code e = c \<and> err_entry e = table_get (error_codes cls) c)"
| "throws_code cls c (Return v) = False"

text \<open>
  Bodies of the tests of the two clients and of the example scenarios of the spec, with whole
  numbers for the rates and for the score.
\<close>

definition mockLatestRatesResponse :: json where
  "mockLatestRatesResponse =
     JObj [(''disclaimer'', JStr ''Exchange rates are provided for informational purposes only.''),
           (''license'', JStr ''https://openexchangerates.org/license''),
           (''timestamp'', JNum 1640995200),
           (''base'', JStr ''USD''),
           (''rates'', JObj [(''JPY'', JNum 115), (''INR'', JNum 83)])]"

definition mockNameMatchResponse :: json where
  "mockNameMatchResponse =
     JObj [(''client_id'', JStr ''client123''), (''name_1'', JStr ''John Doe''),
           (''name_2'', JStr ''john doe''), (''match_score'', JNum 1),
           (''match_status'', JBool True)]"

definition mockErrorResponse :: json where
  "mockErrorResponse =
     JObj [(''error'', JBool True), (''status'', JNum 401), (''message'', JStr ''invalid_app_id''),
           (''description'', JStr ''Invalid application ID provided'')]"

definition invalidTokenBody :: json where
  "invalidTokenBody =
     JObj [(''status_code'', JNum 401), (''success'', JBool False),
           (''message'', JStr ''Invalid token'')]"

section \<open>Properties of the Aptos address functions\<close>

lemma startsWith_0x: "startsWith a ''0x'' \<longleftrightarrow> take 2 a = ''0x''"
  by (simp add: startsWith_def numeral_2_eq_2)

lemma isValidAddress_unfold:
  "isValidAddress a \<longleftrightarrow>
     take 2 a = ''0x'' \<and> drop 2 a \<noteq> [] \<and> list_all is_hex_char (drop 2 a) \<and> length (drop 2 a) \<le> 64"
  unfolding isValidAddress_def startsWith_0x slice_from_def hexRegex_test_def Let_def
  by (simp add: not_less)

lemma isValidAddress_iff:
  "isValidAddress a \<longleftrightarrow>
     (\<exists>h. a = ''0x'' @ h \<and> 1 \<le> length h \<and> length h \<le> 64 \<and> list_all is_hex_char h)"
proof
  assume v: "isValidAddress a"
  then have p: "take 2 a = ''0x''" and ne: "drop 2 a \<noteq> []"
    and h: "list_all is_hex_char (drop 2 a)" and l: "length (drop 2 a) \<le> 64"
    unfolding isValidAddress_unfold by blast+
  have "take 2 a @ drop 2 a = a" by (rule append_take_drop_id)
  with p have "a = ''0x'' @ drop 2 a" by simp
  moreover from ne have "1 \<le> length (drop 2 a)"
    by (cases "drop 2 a") simp_all
  ultimately show "\<exists>h. a = ''0x'' @ h \<and> 1 \<le> length h \<and> length h \<le> 64 \<and> list_all is_hex_char h"
    using l h by blast
next
  assume "\<exists>h. a = ''0x'' @ h \<and> 1 \<le> length h \<and> length h \<le> 64 \<and> list_all is_hex_char h"
  then obtain h where a: "a = ''0x'' @ h" and h: "1 \<le> length h" "length h \<le> 64" "list_all is_hex_char h"
    by blast
  from h(1) have "h \<noteq> []" by auto
  with h show "isValidAddress a"
    unfolding isValidAddress_unfold a by simp
qed

lemma normalizeAddress_valid:
  assumes "isValidAddress a"
  shows "normalizeAddress a = Some (''0x'' @ replicate (64 - length (drop 2 a)) (CHR ''0'') @ drop 2 a)"
  using assms by (simp add: normalizeAddress_def slice_from_def padStart_def Let_def)

lemma normalizeAddress_shape:
  assumes "normalizeAddress a = Some r"
  shows "length r = 66 \<and> take 2 r = ''0x'' \<and> list_all is_hex_char (drop 2 r)"
proof -
  from assms have v: "isValidAddress a"
    by (auto simp: normalizeAddress_def split: if_splits)
  then obtain h where h: "a = ''0x'' @ h" "1 \<le> length h" "length h \<le> 64" "list_all is_hex_char h"
    unfolding isValidAddress_iff by blast
  from assms v have r: "r = ''0x'' @ replicate (64 - length h) (CHR ''0'') @ h"
    using h(1) by (simp add: normalizeAddress_valid)
  have z: "is_hex_char (CHR ''0'')" by (simp add: is_hex_char_def)
  have "list_all is_hex_char (replicate (64 - length h) (CHR ''0'') @ h)"
    using h(4) z by (auto simp: list_all_iff)
  then show ?thesis using h(3) by (simp add: r)
qed

lemma normalizeAddress_fixed:
  assumes "length r = 66" "take 2 r = ''0x''" "list_all is_hex_char (drop 2 r)"
  shows "normalizeAddress r = Some r"
proof -
  have "take 2 r @ drop 2 r = r" by (rule append_take_drop_id)
  with assms(2) have r: "''0x'' @ drop 2 r = r" by simp
  have l: "length (drop 2 r) = 64" using assms(1) by simp
  then have "drop 2 r \<noteq> []" by auto
  with assms l have "isValidAddress r"
    unfolding isValidAddress_unfold by simp
  then have "normalizeAddress r = Some (''0x'' @ replicate (64 - length (drop 2 r)) (CHR ''0'') @ drop 2 r)"
    by (rule normalizeAddress_valid)
  also have "\<dots> = Some (''0x'' @ drop 2 r)" unfolding l by simp
  finally show ?thesis using r by simp
qed

text \<open>
  Claim C10. \<open>normalizeAddress\<close> returns null exactly when \<open>isValidAddress\<close> returns false;
  the valid addresses are the strings made of the prefix 0x and 1 to 64 hexadecimal digits;
  for a valid address the result is 0x followed by the digits left-padded with zeros to 64
  hexadecimal digits; and normalising a result once more returns it unchanged.
\<close>

theorem normalizeAddress_spec:
  "(normalizeAddress a = None \<longleftrightarrow> \<not> isValidAddress a) \<and>
   (isValidAddress a \<longleftrightarrow>
      (\<exists>h. a = ''0x'' @ h \<and> 1 \<le> length h \<and> length h \<le> 64 \<and> list_all is_hex_char h)) \<and>
   (isValidAddress a \<longrightarrow>
      normalizeAddress a =
        Some (''0x'' @ replicate (64 - length (drop 2 a)) (CHR ''0'') @ drop 2 a)) \<and>
   (\<forall>r. normalizeAddress a = Some r \<longrightarrow>
      length r = 66 \<and> take 2 r = ''0x'' \<and> list_all is_hex_char (drop 2 r) \<and>
      normalizeAddress r = Some r)"
proof (intro conjI allI impI)
  show "normalizeAddress a = None \<longleftrightarrow> \<not> isValidAddress a"
    by (simp add: normalizeAddress_def Let_def)
next
  show "isValidAddress a \<longleftrightarrow>
      (\<exists>h. a = ''0x'' @ h \<and> 1 \<le> length h \<and> length h \<le> 64 \<and> list_all is_hex_char h)"
    by (rule isValidAddress_iff)
next
  assume "isValidAddress a"
  then show "normalizeAddress a =
        Some (''0x'' @ replicate (64 - length (drop 2 a)) (CHR ''0'') @ drop 2 a)"
    by (rule normalizeAddress_valid)
next
  fix r assume r: "normalizeAddress a = Some r"
  note s = normalizeAddress_shape [OF r]
  from s show "length r = 66" by simp
  from s show "take 2 r = ''0x''" by simp
  from s show "list_all is_hex_char (drop 2 r)" by simp
  from s show "normalizeAddress r = Some r" by (simp add: normalizeAddress_fixed)
qed

theorem normalizeAddress_spec_witness:
  "isValidAddress ''0x1'' \<and>
   normalizeAddress ''0x1'' =
     Some ''0x0000000000000000000000000000000000000000000000000000000000000001'' \<and>
   normalizeAddress ''0x0000000000000000000000000000000000000000000000000000000000000001'' =
     Some ''0x0000000000000000000000000000000000000000000000000000000000000001''"
proof -
  have v: "isValidAddress ''0x1''"
    by (simp add: isValidAddress_def startsWith_def slice_from_def hexRegex_test_def is_hex_char_def)
  from normalizeAddress_spec [of "''0x1''"] v
  have e: "normalizeAddress ''0x1'' =
     Some (''0x'' @ replicate (64 - length (drop 2 ''0x1'')) (CHR ''0'') @ drop 2 ''0x1'')"
    by blast
  then have e': "normalizeAddress ''0x1'' =
     Some ''0x0000000000000000000000000000000000000000000000000000000000000001''"
    by (simp add: eval_nat_numeral)
  from normalizeAddress_spec [of "''0x1''"] e'
  have "normalizeAddress ''0x0000000000000000000000000000000000000000000000000000000000000001'' =
     Some ''0x0000000000000000000000000000000000000000000000000000000000000001''"
    by blast
  with v e' show ?thesis by blast
qed

section \<open>Properties of the error classes\<close>

lemma table_get_Surepass_toString:
  "table_get SurepassErrorCodes ''toString'' = Some Inherited"
  by (simp add: table_get_def SurepassErrorCodes_def Object_prototype_names_def)

lemma table_get_OpenExchange_toString:
  "table_get OpenExchangeErrorCodes ''toString'' = Some Inherited"
  by (simp add: table_get_def OpenExchangeErrorCodes_def Object_prototype_names_def)

lemma table_get_UNKNOWN_ERROR:
  "table_get SurepassErrorCodes ''UNKNOWN_ERROR'' = Some (Text ''An unknown error occurred in Surepass.'')"
  "table_get OpenExchangeErrorCodes ''UNKNOWN_ERROR'' =
     Some (Text ''An unknown error occurred in Open Exchange.'')"
  by (simp_all add: table_get_def SurepassErrorCodes_def OpenExchangeErrorCodes_def)

lemma map_of_set_prop: "map_of (set_prop name v kvs) = (map_of kvs)(name \<mapsto> v)"
  by (induction kvs) (auto simp: fun_eq_iff)

text \<open>
  A code that is no property of the table at all, own or inherited, is replaced by
  \<^verbatim>\<open>UNKNOWN_ERROR\<close> and kept in the metadata as \<^verbatim>\<open>originalCode\<close>.
\<close>

lemma new_error_no_property:
  assumes "table_get table code = None"
  shows "err_code (new_error cls table code meta cause :: 'x thrown) = ''UNKNOWN_ERROR'' \<and>
         map_of (err_context (new_error cls table code meta cause :: 'x thrown)) ''originalCode'' =
           Some (JStr code)"
  using assms by (simp add: new_error_def Let_def map_of_set_prop)

text \<open>
  Claim C6. For every code that is not a key of the table of its class, the constructed error
  should have the code \<^verbatim>\<open>UNKNOWN_ERROR\<close> and the requested code as \<^verbatim>\<open>originalCode\<close> in its
  metadata. The code \<^verbatim>\<open>toString\<close> is a key of neither table, and both constructors keep it:
  the read \<^verbatim>\<open>table['toString']\<close> finds the function inherited from \<^verbatim>\<open>Object.prototype\<close>,
  the test \<^verbatim>\<open>!table[code]\<close> fails, the error is built from code \<^verbatim>\<open>toString\<close> with that
  function in the place of the message, and its metadata has no \<^verbatim>\<open>originalCode\<close>.
\<close>

theorem inherited_name_keeps_unknown_code:
  "map_of SurepassErrorCodes ''toString'' = None \<and>
   map_of OpenExchangeErrorCodes ''toString'' = None \<and>
   (SurepassError ''toString'' None None :: unit thrown) =
     DomainError SurepassErrorClass ''toString'' (Some Inherited) [] None \<and>
   (OpenExchangeError ''toString'' None None :: unit thrown) =
     DomainError OpenExchangeErrorClass ''toString'' (Some Inherited) [] None"
  by (simp add: SurepassError_def OpenExchangeError_def new_error_def
      table_get_Surepass_toString table_get_OpenExchange_toString)
     (simp add: SurepassErrorCodes_def OpenExchangeErrorCodes_def)

lemma INVALID_TOKEN_entry:
  "table_get SurepassErrorCodes ''INVALID_TOKEN'' =
     Some (Text ''The bearer token has either expired or is invalid or does not have access to this scope.'')"
  by (simp add: table_get_def SurepassErrorCodes_def)

section \<open>Properties of the response handlers\<close>

lemma is_domain_error_new_error [simp]:
  "is_domain_error cls' (new_error cls table code meta cause) = (cls = cls')"
  by (auto simp: new_error_def Let_def)

lemma err_code_new_error:
  "err_code (new_error cls table code meta cause) =
     (if entry_truthy (table_get table code) then code else ''UNKNOWN_ERROR'')"
  by (simp add: new_error_def Let_def)

lemma err_entry_new_error:
  "entry_truthy (table_get table code) \<Longrightarrow>
   err_entry (new_error cls table code meta cause) = table_get table code"
  by (simp add: new_error_def)

lemma Surepass_known_codes:
  "code \<in> {''UNHANDLED_ERROR'', ''UNKNOWN_ERROR'', ''RESPONSE_ERROR'', ''INVALID_TOKEN'',
     ''RATE_LIMIT_EXCEEDED'', ''SERVICE_UNAVAILABLE'', ''VERIFICATION_FAILED'', ''PARSE_ERROR'',
     ''UNKNOWN_RESPONSE_ERROR''} \<Longrightarrow> entry_truthy (table_get SurepassErrorCodes code)"
  by (auto simp: table_get_def SurepassErrorCodes_def)

lemma OpenExchange_known_codes:
  "code \<in> {''UNKNOWN_ERROR'', ''MISSING_APP_ID'', ''CONFIG_INVALID_APP_ID'',
     ''CONFIG_INVALID_BASE_CURRENCY'', ''INVALID_APP_ID'', ''NOT_FOUND'', ''NOT_ALLOWED'',
     ''RESPONSE_ERROR'', ''SERVICE_UNAVAILABLE''} \<Longrightarrow>
   entry_truthy (table_get OpenExchangeErrorCodes code)"
  by (auto simp: table_get_def OpenExchangeErrorCodes_def)

lemma throws_code_SurepassError:
  "code \<in> {''UNHANDLED_ERROR'', ''UNKNOWN_ERROR'', ''RESPONSE_ERROR'', ''INVALID_TOKEN'',
     ''RATE_LIMIT_EXCEEDED'', ''SERVICE_UNAVAILABLE'', ''VERIFICATION_FAILED'', ''PARSE_ERROR'',
     ''UNKNOWN_RESPONSE_ERROR''} \<Longrightarrow>
   throws_code SurepassErrorClass c (Throw (SurepassError code meta cause)) = (c = code)"
  using Surepass_known_codes [of code]
  by (auto simp: SurepassError_def err_code_new_error err_entry_new_error
      simp del: entry_truthy.simps)

lemma throws_code_OpenExchangeError:
  "code \<in> {''UNKNOWN_ERROR'', ''MISSING_APP_ID'', ''CONFIG_INVALID_APP_ID'',
     ''CONFIG_INVALID_BASE_CURRENCY'', ''INVALID_APP_ID'', ''NOT_FOUND'', ''NOT_ALLOWED'',
     ''RESPONSE_ERROR'', ''SERVICE_UNAVAILABLE''} \<Longrightarrow>
   throws_code OpenExchangeErrorClass c (Throw (OpenExchangeError code meta cause)) = (c = code)"
  using OpenExchange_known_codes [of code]
  by (auto simp: OpenExchangeError_def err_code_new_error err_entry_new_error
      simp del: entry_truthy.simps)

lemma get_prop_truthy: "truthy v \<Longrightarrow> \<exists>w. get_prop v name = Inr w"
  by (cases v) simp_all

lemma handle_error_branch:
  assumes "status resp \<in> {400, 401, 403, 404, 429}"
  shows "handle errorSchema json_of resp guard =
     (case errorSchema (body resp) of (err, b) \<Rightarrow>
           if truthy b then
             read_prop b ''message'' (\<lambda>message.
               if message = JStr ''not_found'' then
                 Throw (OpenExchangeError ''NOT_FOUND'' (Some (error_meta resp)) None)
               else if message = JStr ''missing_app_id'' then
                 Throw (OpenExchangeError ''MISSING_APP_ID'' (Some (error_meta resp)) None)
               else if message = JStr ''invalid_app_id'' then
                 Throw (OpenExchangeError ''INVALID_APP_ID'' (Some (error_meta resp)) None)
               else if message = JStr ''not_allowed'' \<or> message = JStr ''access_restricted'' then
                 Throw (OpenExchangeError ''NOT_ALLOWED'' (Some (error_meta resp)) None)
               else
                 Throw (OpenExchangeError ''RESPONSE_ERROR'' (Some (error_meta resp)) None))
           else
             (case err of
                None \<Rightarrow> Throw (TypeError ''Cannot read properties of null (reading 'toJSON')'')
              | Some e \<Rightarrow>
                  Throw (OpenExchangeError ''RESPONSE_ERROR''
                    (Some (error_meta resp @ [(''responseError'', json_of e)])) None)))"
proof -
  from assms have ne: "status resp \<noteq> 200" by auto
  from assms have m: "status resp \<in> {401, 400, 403, 404, 429}" by auto
  show ?thesis by (simp only: handle_def ne m if_True if_False)
qed

lemma handle_other_branch:
  assumes "status resp \<notin> {200, 400, 401, 403, 404, 429}"
  shows "handle errorSchema json_of resp guard =
        (case guard (body resp) of (err, b) \<Rightarrow>
           (case err of
              Some e \<Rightarrow>
                Throw (OpenExchangeError ''SERVICE_UNAVAILABLE''
                  (Some (error_meta resp @ [(''responseError'', json_of e)])) None)
            | None \<Rightarrow> Return b))"
proof -
  from assms have ne: "status resp \<noteq> 200" by auto
  from assms have m: "status resp \<notin> {401, 400, 403, 404, 429}" by auto
  show ?thesis by (simp only: handle_def ne m if_True if_False)
qed

lemma handle_error_status:
  fixes errorSchema guard :: "json \<Rightarrow> 'e option \<times> json"
  assumes "status resp \<in> {400, 401, 403, 404, 429}"
  shows "(\<forall>v. handle errorSchema json_of resp guard \<noteq> (Return v :: (json, 'x) outcome))"
    and "fst (errorSchema (body resp)) \<noteq> None \<or> truthy (snd (errorSchema (body resp))) \<Longrightarrow>
         \<exists>e. handle errorSchema json_of resp guard = (Throw e :: (json, 'x) outcome) \<and>
             is_domain_error OpenExchangeErrorClass e"
proof -
  obtain err b where eb: "errorSchema (body resp) = (err, b)" by (cases "errorSchema (body resp)")
  note hb = handle_error_branch [OF assms, of errorSchema json_of guard]
  show "\<forall>v. handle errorSchema json_of resp guard \<noteq> (Return v :: (json, 'x) outcome)"
  proof (cases "truthy b")
    case True
    then obtain w where "get_prop b ''message'' = Inr w" using get_prop_truthy by blast
    with True eb show ?thesis
      unfolding hb by (simp add: read_prop_def)
  next
    case False
    with eb show ?thesis
      unfolding hb by (simp split: option.splits)
  qed
  assume c: "fst (errorSchema (body resp)) \<noteq> None \<or> truthy (snd (errorSchema (body resp)))"
  show "\<exists>e. handle errorSchema json_of resp guard = (Throw e :: (json, 'x) outcome) \<and>
             is_domain_error OpenExchangeErrorClass e"
  proof (cases "truthy b")
    case True
    then obtain w where "get_prop b ''message'' = Inr w" using get_prop_truthy by blast
    with True eb show ?thesis
      unfolding hb by (simp add: read_prop_def OpenExchangeError_def)
  next
    case False
    with c eb obtain e where "err = Some e" by auto
    with False eb show ?thesis
      unfolding hb by (simp add: OpenExchangeError_def)
  qed
qed

lemma handle_mapping:
  fixes errorSchema guard :: "json \<Rightarrow> 'e option \<times> json"
  assumes "status resp \<in> {400, 401, 403, 404, 429}"
    and "errorSchema (body resp) = (err, b)" and "truthy b"
    and "get_prop b ''message'' = Inr (JStr m)"
  shows "throws_code OpenExchangeErrorClass
           (if m = ''invalid_app_id'' then ''INVALID_APP_ID''
            else if m = ''missing_app_id'' then ''MISSING_APP_ID''
            else if m = ''not_found'' then ''NOT_FOUND''
            else if m = ''not_allowed'' \<or> m = ''access_restricted'' then ''NOT_ALLOWED''
            else ''RESPONSE_ERROR'')
           (handle errorSchema json_of resp guard :: (json, 'x) outcome)"
  unfolding handle_error_branch [OF assms(1)]
  using assms(2-4)
  by (simp add: read_prop_def throws_code_OpenExchangeError del: throws_code.simps)

lemma handle_200:
  fixes errorSchema guard :: "json \<Rightarrow> 'e option \<times> json"
  assumes "status resp = 200"
  shows "handle errorSchema json_of resp guard =
        (case guard (body resp) of (err, b) \<Rightarrow>
           if err \<noteq> None then
             (Throw (OpenExchangeError ''RESPONSE_ERROR'' (Some (error_meta resp)) None) :: (json, 'x) outcome)
           else Return b)"
  using assms unfolding handle_def by simp

lemma checkAPIResponse_envelope_failure:
  assumes "schema (body resp) = (error, respObj)" and "error \<noteq> None \<or> \<not> truthy respObj"
  shows "checkAPIResponse schema list_causes resp validator =
          read_prop (body resp) ''status_code'' (\<lambda>st.
            Throw (SurepassError ''RESPONSE_ERROR''
              (Some [(''status'', st),
                     (''details'', (case error of Some e \<Rightarrow> list_causes e
                                    | None \<Rightarrow> JStr ''No response body received''))])
              None))"
  using assms unfolding checkAPIResponse_def by auto

lemma checkAPIResponse_null_body:
  assumes "body resp = JNull" and "fst (schema JNull) \<noteq> None \<or> \<not> truthy (snd (schema JNull))"
  shows "checkAPIResponse schema list_causes resp validator =
           Throw (TypeError ''Cannot read properties of null (reading 'status_code')'')"
proof -
  obtain error respObj where s: "schema (body resp) = (error, respObj)"
    by (cases "schema (body resp)")
  with assms have "error \<noteq> None \<or> \<not> truthy respObj" by auto
  from checkAPIResponse_envelope_failure [where schema = schema and resp = resp, OF s this] assms(1)
  show ?thesis by (simp add: read_prop_def)
qed

lemma checkAPIResponse_not_success:
  fixes schema :: "json \<Rightarrow> 'e option \<times> json"
  assumes "schema (body resp) = (None, respObj)" and "truthy respObj"
    and "get_prop respObj ''success'' = Inr (JBool False)"
  shows "checkAPIResponse schema list_causes resp validator =
           read_prop respObj ''status_code'' (\<lambda>sc.
                let code =
                   (if sc = JNum 500 then ''SERVICE_UNAVAILABLE''
                    else if sc = JNum 422 then ''VERIFICATION_FAILED''
                    else if sc = JNum 401 then ''INVALID_TOKEN''
                    else if sc = JNum 429 then ''RATE_LIMIT_EXCEEDED''
                    else ''UNKNOWN_RESPONSE_ERROR'')
                in read_prop (body resp) ''status_code'' (\<lambda>st.
                   read_prop respObj ''message'' (\<lambda>msg.
                   read_prop respObj ''data'' (\<lambda>d.
                     (Throw (SurepassError code
                       (Some [(''statusCode'', st), (''message'', msg), (''details'', d)])
                       None) :: (json, 'x) outcome)))))"
  using assms unfolding checkAPIResponse_def by (simp add: read_prop_def)

lemma status_code_in_table:
  "(if sc = JNum 500 then ''SERVICE_UNAVAILABLE''
    else if sc = JNum 422 then ''VERIFICATION_FAILED''
    else if sc = JNum 401 then ''INVALID_TOKEN''
    else if sc = JNum 429 then ''RATE_LIMIT_EXCEEDED''
    else ''UNKNOWN_RESPONSE_ERROR'')
   \<in> {''UNHANDLED_ERROR'', ''UNKNOWN_ERROR'', ''RESPONSE_ERROR'', ''INVALID_TOKEN'',
     ''RATE_LIMIT_EXCEEDED'', ''SERVICE_UNAVAILABLE'', ''VERIFICATION_FAILED'', ''PARSE_ERROR'',
     ''UNKNOWN_RESPONSE_ERROR''}"
  by simp

lemma checkAPIResponse_not_success_never_returns:
  fixes schema :: "json \<Rightarrow> 'e option \<times> json"
  assumes "schema (body resp) = (None, respObj)" and "truthy respObj"
    and "get_prop respObj ''success'' = Inr (JBool False)"
  shows "checkAPIResponse schema list_causes resp validator \<noteq> (Return v :: (json, 'x) outcome)"
proof -
  from assms(2) obtain sc msg d where r: "get_prop respObj ''status_code'' = Inr sc"
    "get_prop respObj ''message'' = Inr msg" "get_prop respObj ''data'' = Inr d"
    using get_prop_truthy by metis
  show ?thesis
    unfolding checkAPIResponse_not_success [where schema = schema and resp = resp, OF assms]
    by (cases "get_prop (body resp) ''status_code''") (simp_all add: read_prop_def r Let_def)
qed

lemma checkAPIResponse_mapping:
  fixes schema :: "json \<Rightarrow> 'e option \<times> json"
  assumes "schema (body resp) = (None, respObj)" and "truthy respObj"
    and "get_prop respObj ''success'' = Inr (JBool False)"
    and "get_prop respObj ''status_code'' = Inr sc"
    and "body resp \<noteq> JNull" and "body resp \<noteq> JUndefined"
  shows "throws_code SurepassErrorClass
           (if sc = JNum 500 then ''SERVICE_UNAVAILABLE''
            else if sc = JNum 422 then ''VERIFICATION_FAILED''
            else if sc = JNum 401 then ''INVALID_TOKEN''
            else if sc = JNum 429 then ''RATE_LIMIT_EXCEEDED''
            else ''UNKNOWN_RESPONSE_ERROR'')
           (checkAPIResponse schema list_causes resp validator :: (json, 'x) outcome)"
proof -
  from assms(2) obtain msg d where r:
    "get_prop respObj ''message'' = Inr msg" "get_prop respObj ''data'' = Inr d"
    using get_prop_truthy by metis
  from assms(5,6) obtain st where st: "get_prop (body resp) ''status_code'' = Inr st"
    by (cases "body resp") simp_all
  show ?thesis
    unfolding checkAPIResponse_not_success [where schema = schema and resp = resp, OF assms(1-3)]
    by (simp add: read_prop_def r st assms(4) Let_def throws_code_SurepassError
        del: throws_code.simps)
qed

lemma checkAPIResponse_validated:
  fixes schema validate :: "json \<Rightarrow> 'e option \<times> json"
  assumes "schema (body resp) = (None, respObj)" and "truthy respObj"
    and "get_prop respObj ''success'' \<noteq> Inr (JBool False)"
    and "get_prop respObj ''data'' = Inr d"
    and "validate d = (validationError, validatedData)"
  shows "checkAPIResponse schema list_causes resp (Some validate) =
           (case validationError of
              Some ve \<Rightarrow>
                (Throw (SurepassError ''PARSE_ERROR'' (Some [(''details'', list_causes ve)]) None)
                  :: (json, 'x) outcome)
            | None \<Rightarrow> Return validatedData)"
proof -
  from assms(2) obtain s where s: "get_prop respObj ''success'' = Inr s"
    using get_prop_truthy by blast
  with assms(3) have "s \<noteq> JBool False" by simp
  with s assms show ?thesis
    unfolding checkAPIResponse_def by (simp add: read_prop_def)
qed

lemma schema_validate_rejects:
  assumes "(name, g, opt) \<in> set decls"
    and "(map_of kvs name = None \<and> \<not> opt) \<or>
         (\<exists>v. map_of kvs name = Some v \<and> v \<noteq> JUndefined \<and> \<not> guard_ok g v)"
  shows "fst (schema_validate decls (JObj kvs)) \<noteq> None \<and>
         snd (schema_validate decls (JObj kvs)) = JUndefined"
proof -
  from assms(2) have "\<not> field_ok kvs (name, g, opt)" by auto
  with assms(1) have "\<exists>f \<in> set decls. \<not> field_ok kvs f" by blast
  then have "filter (\<lambda>f. \<not> field_ok kvs f) decls \<noteq> []"
    by (simp add: filter_empty_conv del: field_ok.simps)
  then show ?thesis by (simp add: schema_validate_def Let_def)
qed

lemma schema_validate_all_or_nothing:
  "schema_validate decls b = (None, b) \<or>
   (fst (schema_validate decls b) \<noteq> None \<and> snd (schema_validate decls b) = JUndefined)"
  by (cases b) (simp_all add: schema_validate_def Let_def)

text \<open>
  Claim C1, as stated, fails. \<^verbatim>\<open>OpenExchange.__handle\<close> returns the body of a response with the
  status 250 when the body passes the guard of the operation (the case of the test of an
  unknown status), and \<^verbatim>\<open>Surepass.__checkAPIResponse\<close>, which never reads the status of the
  response, returns the data of a body with \<^verbatim>\<open>status_code\<close> 500 whose \<^verbatim>\<open>success\<close> is true.
\<close>

theorem non_success_status_returns_counterexample:
  "(handle (schema_validate ErrorSchemaObject) toJSON
      \<lparr>status = 250, body = mockLatestRatesResponse\<rparr>
      (schema_validate LatestRatesSchemaObject) :: (json, unit) outcome) =
     Return mockLatestRatesResponse \<and>
   (checkAPIResponse (schema_validate SurepassResponseSchema) listCauses
      \<lparr>status = 500, body = JObj [(''status_code'', JNum 500), (''success'', JBool True),
                                 (''data'', mockNameMatchResponse)]\<rparr>
      (Some (schema_validate SurepassNameMatchSchema)) :: (json, unit) outcome) =
     Return mockNameMatchResponse"
  by code_simp

text \<open>
  Claim C1, amended. \<^verbatim>\<open>OpenExchange.__handle\<close> never returns a result for a response with the
  status 400, 401, 403, 404 or 429, and throws an \<^verbatim>\<open>OpenExchangeError\<close> there when the body
  passes the error schema with one of the messages \<^verbatim>\<open>invalid_app_id\<close>, \<^verbatim>\<open>missing_app_id\<close>,
  \<^verbatim>\<open>not_found\<close>, \<^verbatim>\<open>not_allowed\<close> and \<^verbatim>\<open>access_restricted\<close>. For a status other than 200 and
  those five it never returns a result when the body fails the guard of the operation, and
  for such a status between 200 and 300 it returns the validated body when the body passes
  the guard.
  \<^verbatim>\<open>Surepass.__checkAPIResponse\<close> decides on the \<^verbatim>\<open>success\<close> of the validated body and on no
  status: when \<^verbatim>\<open>success\<close> is false it never returns a result, and throws a \<^verbatim>\<open>SurepassError\<close>
  when the body is not null; when \<^verbatim>\<open>success\<close> is not false it returns the validated data,
  whatever the status code.
\<close>

theorem non_success_status_outcomes:
  fixes errorSchema guard schema validate :: "json \<Rightarrow> 'e option \<times> json"
  shows
  "(status resp \<in> {400, 401, 403, 404, 429} \<longrightarrow>
      (\<forall>v. handle errorSchema json_of resp guard \<noteq> (Return v :: (json, 'x) outcome)) \<and>
      (errorSchema (body resp) = (err, eb) \<and> truthy eb \<and>
       get_prop eb ''message'' = Inr (JStr m) \<and>
       m \<in> {''invalid_app_id'', ''missing_app_id'', ''not_found'', ''not_allowed'',
             ''access_restricted''} \<longrightarrow>
         (\<exists>e. handle errorSchema json_of resp guard = (Throw e :: (json, 'x) outcome) \<and>
              is_domain_error OpenExchangeErrorClass e))) \<and>
   (status resp \<notin> {200, 400, 401, 403, 404, 429} \<and> fst (guard (body resp)) \<noteq> None \<longrightarrow>
      (\<forall>v. handle errorSchema json_of resp guard \<noteq> (Return v :: (json, 'x) outcome))) \<and>
   (200 < status resp \<and> status resp < 300 \<and> guard (body resp) = (None, b) \<longrightarrow>
      handle errorSchema json_of resp guard = (Return b :: (json, 'x) outcome)) \<and>
   (schema (body resp) = (None, respObj) \<and> truthy respObj \<and>
    get_prop respObj ''success'' = Inr (JBool False) \<longrightarrow>
      (\<forall>v. checkAPIResponse schema list_causes resp validator \<noteq> (Return v :: (json, 'x) outcome)) \<and>
      (body resp \<noteq> JNull \<and> body resp \<noteq> JUndefined \<longrightarrow>
         (\<exists>e. checkAPIResponse schema list_causes resp validator = (Throw e :: (json, 'x) outcome) \<and>
              is_domain_error SurepassErrorClass e))) \<and>
   (schema (body resp) = (None, respObj) \<and> truthy respObj \<and>
    get_prop respObj ''success'' \<noteq> Inr (JBool False) \<and>
    get_prop respObj ''data'' = Inr d \<and> validate d = (None, v) \<longrightarrow>
      checkAPIResponse schema list_causes resp (Some validate) = (Return v :: (json, 'x) outcome))"
proof (intro conjI impI allI)
  fix v assume "status resp \<in> {400, 401, 403, 404, 429}"
  then show "handle errorSchema json_of resp guard \<noteq> (Return v :: (json, 'x) outcome)"
    using handle_error_status(1) [of resp errorSchema json_of guard] by blast
next
  assume s: "status resp \<in> {400, 401, 403, 404, 429}"
    and a: "errorSchema (body resp) = (err, eb) \<and> truthy eb \<and>
       get_prop eb ''message'' = Inr (JStr m) \<and>
       m \<in> {''invalid_app_id'', ''missing_app_id'', ''not_found'', ''not_allowed'',
             ''access_restricted''}"
  from a have "truthy (snd (errorSchema (body resp)))" by simp
  with s show "\<exists>e. handle errorSchema json_of resp guard = (Throw e :: (json, 'x) outcome) \<and>
              is_domain_error OpenExchangeErrorClass e"
    using handle_error_status(2) [of resp errorSchema json_of guard] by blast
next
  fix v
  assume a: "status resp \<notin> {200, 400, 401, 403, 404, 429} \<and> fst (guard (body resp)) \<noteq> None"
  then have s: "status resp \<notin> {200, 400, 401, 403, 404, 429}" ..
  from a obtain e w where g: "guard (body resp) = (Some e, w)"
    by (cases "guard (body resp)") auto
  show "handle errorSchema json_of resp guard \<noteq> (Return v :: (json, 'x) outcome)"
    unfolding handle_other_branch [OF s] by (simp add: g)
next
  assume a: "200 < status resp \<and> status resp < 300 \<and> guard (body resp) = (None, b)"
  then have s: "status resp \<notin> {200, 400, 401, 403, 404, 429}" by auto
  show "handle errorSchema json_of resp guard = (Return b :: (json, 'x) outcome)"
    unfolding handle_other_branch [OF s] using a by simp
next
  fix v assume a: "schema (body resp) = (None, respObj) \<and> truthy respObj \<and>
    get_prop respObj ''success'' = Inr (JBool False)"
  then show "checkAPIResponse schema list_causes resp validator \<noteq> (Return v :: (json, 'x) outcome)"
    using checkAPIResponse_not_success_never_returns [where schema = schema and resp = resp]
    by blast
next
  assume a: "schema (body resp) = (None, respObj) \<and> truthy respObj \<and>
    get_prop respObj ''success'' = Inr (JBool False)"
    and b: "body resp \<noteq> JNull \<and> body resp \<noteq> JUndefined"
  from a obtain sc where sc: "get_prop respObj ''status_code'' = Inr sc"
    using get_prop_truthy by blast
  from a b sc have "throws_code SurepassErrorClass
           (if sc = JNum 500 then ''SERVICE_UNAVAILABLE''
            else if sc = JNum 422 then ''VERIFICATION_FAILED''
            else if sc = JNum 401 then ''INVALID_TOKEN''
            else if sc = JNum 429 then ''RATE_LIMIT_EXCEEDED''
            else ''UNKNOWN_RESPONSE_ERROR'')
           (checkAPIResponse schema list_causes resp validator :: (json, 'x) outcome)"
    using checkAPIResponse_mapping [where schema = schema and resp = resp] by blast
  then show "\<exists>e. checkAPIResponse schema list_causes resp validator = (Throw e :: (json, 'x) outcome) \<and>
              is_domain_error SurepassErrorClass e"
    by (cases "checkAPIResponse schema list_causes resp validator :: (json, 'x) outcome") simp_all
next
  assume a: "schema (body resp) = (None, respObj) \<and> truthy respObj \<and>
    get_prop respObj ''success'' \<noteq> Inr (JBool False) \<and>
    get_prop respObj ''data'' = Inr d \<and> validate d = (None, v)"
  then have a1: "schema (body resp) = (None, respObj)" and a2: "truthy respObj"
    and a3: "get_prop respObj ''success'' \<noteq> Inr (JBool False)"
    and a4: "get_prop respObj ''data'' = Inr d" and a5: "validate d = (None, v)"
    by blast+
  from checkAPIResponse_validated [where schema = schema and resp = resp and validate = validate
      and d = d, OF a1 a2 a3 a4 a5]
  show "checkAPIResponse schema list_causes resp (Some validate) = (Return v :: (json, 'x) outcome)"
    by simp
qed

lemma ErrorSchema_mockErrorResponse:
  "schema_validate ErrorSchemaObject mockErrorResponse = (None, mockErrorResponse)"
  by code_simp

lemma SurepassResponseSchema_invalidTokenBody:
  "schema_validate SurepassResponseSchema invalidTokenBody = (None, invalidTokenBody)"
  by code_simp

lemma LatestRatesSchema_mockLatestRatesResponse:
  "schema_validate LatestRatesSchemaObject mockLatestRatesResponse = (None, mockLatestRatesResponse)"
  by code_simp

theorem non_success_status_outcomes_witness:
  "(\<exists>e. (handle (schema_validate ErrorSchemaObject) toJSON
            \<lparr>status = 401, body = mockErrorResponse\<rparr>
            (schema_validate LatestRatesSchemaObject) :: (json, unit) outcome) = Throw e \<and>
        is_domain_error OpenExchangeErrorClass e) \<and>
   (\<nexists>v. (handle (schema_validate ErrorSchemaObject) toJSON
            \<lparr>status = 500, body = JObj [(''error'', JStr ''Internal server error'')]\<rparr>
            (guard_validate CurrenciesSchemaObject) :: (json, unit) outcome) = Return v) \<and>
   (handle (schema_validate ErrorSchemaObject) toJSON
      \<lparr>status = 201, body = mockLatestRatesResponse\<rparr>
      (schema_validate LatestRatesSchemaObject) :: (json, unit) outcome) =
     Return mockLatestRatesResponse \<and>
   (\<exists>e. (checkAPIResponse (schema_validate SurepassResponseSchema) listCauses
            \<lparr>status = 401, body = invalidTokenBody\<rparr>
            (Some (schema_validate SurepassNameMatchSchema)) :: (json, unit) outcome) = Throw e \<and>
        is_domain_error SurepassErrorClass e)"
proof -
  let ?r1 = "\<lparr>status = 401, body = mockErrorResponse\<rparr>"
  let ?r2 = "\<lparr>status = 500, body = JObj [(''error'', JStr ''Internal server error'')]\<rparr>"
  let ?r3 = "\<lparr>status = 401, body = invalidTokenBody\<rparr>"
  let ?r4 = "\<lparr>status = 201, body = mockLatestRatesResponse\<rparr>"
  have g2: "guard_validate CurrenciesSchemaObject (body ?r2) =
      (Some (GuardianError [''Value does not match the guard'']), JUndefined)"
    by code_simp
  have s3: "get_prop invalidTokenBody ''success'' = Inr (JBool False)"
    "truthy invalidTokenBody" "invalidTokenBody \<noteq> JNull" "invalidTokenBody \<noteq> JUndefined"
    by (simp_all add: invalidTokenBody_def)
  have t1m: "truthy mockErrorResponse"
    "get_prop mockErrorResponse ''message'' = Inr (JStr ''invalid_app_id'')"
    by (simp_all add: mockErrorResponse_def)
  note t1 = non_success_status_outcomes [where resp = ?r1
      and errorSchema = "schema_validate ErrorSchemaObject" and json_of = toJSON
      and guard = "schema_validate LatestRatesSchemaObject" and err = None
      and eb = mockErrorResponse and m = "''invalid_app_id''", where ?'x = unit, THEN conjunct1]
  note t2 = non_success_status_outcomes [where resp = ?r2
      and errorSchema = "schema_validate ErrorSchemaObject" and json_of = toJSON
      and guard = "guard_validate CurrenciesSchemaObject", where ?'x = unit,
      THEN conjunct2, THEN conjunct1]
  note t4 = non_success_status_outcomes [where resp = ?r4
      and errorSchema = "schema_validate ErrorSchemaObject" and json_of = toJSON
      and guard = "schema_validate LatestRatesSchemaObject" and b = mockLatestRatesResponse,
      where ?'x = unit, THEN conjunct2, THEN conjunct2, THEN conjunct1]
  note t3 = non_success_status_outcomes [where resp = ?r3
      and schema = "schema_validate SurepassResponseSchema" and respObj = invalidTokenBody
      and list_causes = listCauses
      and validator = "Some (schema_validate SurepassNameMatchSchema)", where ?'x = unit,
      THEN conjunct2, THEN conjunct2, THEN conjunct2, THEN conjunct1]
  have c1: "\<exists>e. (handle (schema_validate ErrorSchemaObject) toJSON ?r1
            (schema_validate LatestRatesSchemaObject) :: (json, unit) outcome) = Throw e \<and>
        is_domain_error OpenExchangeErrorClass e"
    using t1 t1m by (simp add: ErrorSchema_mockErrorResponse)
  have c2: "\<nexists>v. (handle (schema_validate ErrorSchemaObject) toJSON ?r2
        (guard_validate CurrenciesSchemaObject) :: (json, unit) outcome) = Return v"
    using t2 g2 by simp
  have c4: "(handle (schema_validate ErrorSchemaObject) toJSON ?r4
      (schema_validate LatestRatesSchemaObject) :: (json, unit) outcome) =
     Return mockLatestRatesResponse"
    using t4 by (simp add: LatestRatesSchema_mockLatestRatesResponse)
  have c3: "\<exists>e. (checkAPIResponse (schema_validate SurepassResponseSchema) listCauses ?r3
            (Some (schema_validate SurepassNameMatchSchema)) :: (json, unit) outcome) = Throw e \<and>
        is_domain_error SurepassErrorClass e"
    using t3 s3 by (simp add: SurepassResponseSchema_invalidTokenBody)
  from c1 c2 c4 c3 show ?thesis by (intro conjI)
qed

text \<open>
  Claim C2. The status tables. For a response whose body passes the response schema with
  \<^verbatim>\<open>success\<close> false, \<^verbatim>\<open>Surepass.__checkAPIResponse\<close> throws a \<^verbatim>\<open>SurepassError\<close> whose code is
  \<^verbatim>\<open>INVALID_TOKEN\<close> for the status code 401, \<^verbatim>\<open>RATE_LIMIT_EXCEEDED\<close> for 429,
  \<^verbatim>\<open>SERVICE_UNAVAILABLE\<close> for 500, \<^verbatim>\<open>VERIFICATION_FAILED\<close> for 422 and
  \<^verbatim>\<open>UNKNOWN_RESPONSE_ERROR\<close> for every other value. For a response with the status 400, 401,
  403, 404 or 429 whose body passes the error schema, \<^verbatim>\<open>OpenExchange.__handle\<close> throws an
  \<^verbatim>\<open>OpenExchangeError\<close> whose code is \<^verbatim>\<open>INVALID_APP_ID\<close> for the message
  \<^verbatim>\<open>invalid_app_id\<close>, \<^verbatim>\<open>MISSING_APP_ID\<close> for \<^verbatim>\<open>missing_app_id\<close>, \<^verbatim>\<open>NOT_FOUND\<close> for
  \<^verbatim>\<open>not_found\<close>, and \<^verbatim>\<open>NOT_ALLOWED\<close> for \<^verbatim>\<open>not_allowed\<close> and \<^verbatim>\<open>access_restricted\<close>.
\<close>

theorem status_mapping_tables:
  fixes errorSchema guard schema :: "json \<Rightarrow> 'e option \<times> json"
  shows
  "(schema (body resp) = (None, respObj) \<and> truthy respObj \<and>
    get_prop respObj ''success'' = Inr (JBool False) \<and>
    get_prop respObj ''status_code'' = Inr sc \<and>
    body resp \<noteq> JNull \<and> body resp \<noteq> JUndefined \<longrightarrow>
      throws_code SurepassErrorClass
        (if sc = JNum 401 then ''INVALID_TOKEN''
         else if sc = JNum 429 then ''RATE_LIMIT_EXCEEDED''
         else if sc = JNum 500 then ''SERVICE_UNAVAILABLE''
         else if sc = JNum 422 then ''VERIFICATION_FAILED''
         else ''UNKNOWN_RESPONSE_ERROR'')
        (checkAPIResponse schema list_causes resp validator :: (json, 'x) outcome)) \<and>
   (status resp \<in> {400, 401, 403, 404, 429} \<and>
    errorSchema (body resp) = (err, b) \<and> truthy b \<and>
    get_prop b ''message'' = Inr (JStr m) \<and>
    m \<in> {''invalid_app_id'', ''missing_app_id'', ''not_found'', ''not_allowed'',
          ''access_restricted''} \<longrightarrow>
      throws_code OpenExchangeErrorClass
        (if m = ''invalid_app_id'' then ''INVALID_APP_ID''
         else if m = ''missing_app_id'' then ''MISSING_APP_ID''
         else if m = ''not_found'' then ''NOT_FOUND''
         else ''NOT_ALLOWED'')
        (handle errorSchema json_of resp guard :: (json, 'x) outcome))"
proof (intro conjI impI)
  assume a: "schema (body resp) = (None, respObj) \<and> truthy respObj \<and>
    get_prop respObj ''success'' = Inr (JBool False) \<and>
    get_prop respObj ''status_code'' = Inr sc \<and>
    body resp \<noteq> JNull \<and> body resp \<noteq> JUndefined"
  then have a1: "schema (body resp) = (None, respObj)" and a2: "truthy respObj"
    and a3: "get_prop respObj ''success'' = Inr (JBool False)"
    and a4: "get_prop respObj ''status_code'' = Inr sc"
    and a5: "body resp \<noteq> JNull" and a6: "body resp \<noteq> JUndefined"
    by blast+
  have eq: "(if sc = JNum 401 then ''INVALID_TOKEN''
         else if sc = JNum 429 then ''RATE_LIMIT_EXCEEDED''
         else if sc = JNum 500 then ''SERVICE_UNAVAILABLE''
         else if sc = JNum 422 then ''VERIFICATION_FAILED''
         else ''UNKNOWN_RESPONSE_ERROR'') =
        (if sc = JNum 500 then ''SERVICE_UNAVAILABLE''
         else if sc = JNum 422 then ''VERIFICATION_FAILED''
         else if sc = JNum 401 then ''INVALID_TOKEN''
         else if sc = JNum 429 then ''RATE_LIMIT_EXCEEDED''
         else ''UNKNOWN_RESPONSE_ERROR'')"
    by simp
  show "throws_code SurepassErrorClass
        (if sc = JNum 401 then ''INVALID_TOKEN''
         else if sc = JNum 429 then ''RATE_LIMIT_EXCEEDED''
         else if sc = JNum 500 then ''SERVICE_UNAVAILABLE''
         else if sc = JNum 422 then ''VERIFICATION_FAILED''
         else ''UNKNOWN_RESPONSE_ERROR'')
        (checkAPIResponse schema list_causes resp validator :: (json, 'x) outcome)"
    using checkAPIResponse_mapping [where schema = schema and resp = resp and sc = sc
        and list_causes = list_causes and validator = validator and ?'x = 'x,
        OF a1 a2 a3 a4 a5 a6]
    by (simp only: eq)
next
  assume a: "status resp \<in> {400, 401, 403, 404, 429} \<and>
    errorSchema (body resp) = (err, b) \<and> truthy b \<and>
    get_prop b ''message'' = Inr (JStr m) \<and>
    m \<in> {''invalid_app_id'', ''missing_app_id'', ''not_found'', ''not_allowed'',
          ''access_restricted''}"
  then have a1: "status resp \<in> {400, 401, 403, 404, 429}"
    and a2: "errorSchema (body resp) = (err, b)" and a3: "truthy b"
    and a4: "get_prop b ''message'' = Inr (JStr m)"
    and a5: "m \<in> {''invalid_app_id'', ''missing_app_id'', ''not_found'', ''not_allowed'',
          ''access_restricted''}"
    by simp_all
  from a5 have eq: "(if m = ''invalid_app_id'' then ''INVALID_APP_ID''
         else if m = ''missing_app_id'' then ''MISSING_APP_ID''
         else if m = ''not_found'' then ''NOT_FOUND''
         else ''NOT_ALLOWED'') =
        (if m = ''invalid_app_id'' then ''INVALID_APP_ID''
            else if m = ''missing_app_id'' then ''MISSING_APP_ID''
            else if m = ''not_found'' then ''NOT_FOUND''
            else if m = ''not_allowed'' \<or> m = ''access_restricted'' then ''NOT_ALLOWED''
            else ''RESPONSE_ERROR'')"
    by auto
  show "throws_code OpenExchangeErrorClass
        (if m = ''invalid_app_id'' then ''INVALID_APP_ID''
         else if m = ''missing_app_id'' then ''MISSING_APP_ID''
         else if m = ''not_found'' then ''NOT_FOUND''
         else ''NOT_ALLOWED'')
        (handle errorSchema json_of resp guard :: (json, 'x) outcome)"
    using handle_mapping [where errorSchema = errorSchema and resp = resp and m = m
        and json_of = json_of and guard = guard and ?'x = 'x, OF a1 a2 a3 a4]
    by (simp only: eq)
qed

theorem status_mapping_tables_witness:
  "throws_code SurepassErrorClass ''INVALID_TOKEN''
     (checkAPIResponse (schema_validate SurepassResponseSchema) listCauses
        \<lparr>status = 401, body = invalidTokenBody\<rparr>
        (Some (schema_validate SurepassNameMatchSchema)) :: (json, unit) outcome) \<and>
   throws_code OpenExchangeErrorClass ''INVALID_APP_ID''
     (handle (schema_validate ErrorSchemaObject) toJSON
        \<lparr>status = 401, body = mockErrorResponse\<rparr>
        (schema_validate LatestRatesSchemaObject) :: (json, unit) outcome)"
proof -
  let ?r1 = "\<lparr>status = 401, body = invalidTokenBody\<rparr>"
  let ?r2 = "\<lparr>status = 401, body = mockErrorResponse\<rparr>"
  have s: "get_prop invalidTokenBody ''success'' = Inr (JBool False)"
    "get_prop invalidTokenBody ''status_code'' = Inr (JNum 401)"
    "truthy invalidTokenBody" "invalidTokenBody \<noteq> JNull" "invalidTokenBody \<noteq> JUndefined"
    by (simp_all add: invalidTokenBody_def)
  have e: "get_prop mockErrorResponse ''message'' = Inr (JStr ''invalid_app_id'')"
    "truthy mockErrorResponse"
    by (simp_all add: mockErrorResponse_def)
  note t1 = status_mapping_tables [where resp = ?r1
      and schema = "schema_validate SurepassResponseSchema" and respObj = invalidTokenBody
      and sc = "JNum 401" and list_causes = listCauses
      and validator = "Some (schema_validate SurepassNameMatchSchema)", where ?'x = unit,
      THEN conjunct1]
  note t2 = status_mapping_tables [where resp = ?r2
      and errorSchema = "schema_validate ErrorSchemaObject" and err = None
      and b = mockErrorResponse and m = "''invalid_app_id''" and json_of = toJSON
      and guard = "schema_validate LatestRatesSchemaObject", where ?'x = unit,
      THEN conjunct2]
  have c1: "throws_code SurepassErrorClass ''INVALID_TOKEN''
     (checkAPIResponse (schema_validate SurepassResponseSchema) listCauses ?r1
        (Some (schema_validate SurepassNameMatchSchema)) :: (json, unit) outcome)"
    using t1 s by (simp add: SurepassResponseSchema_invalidTokenBody del: throws_code.simps)
  have c2: "throws_code OpenExchangeErrorClass ''INVALID_APP_ID''
     (handle (schema_validate ErrorSchemaObject) toJSON ?r2
        (schema_validate LatestRatesSchemaObject) :: (json, unit) outcome)"
    using t2 e by (simp add: ErrorSchema_mockErrorResponse del: throws_code.simps)
  from c1 c2 show ?thesis by blast
qed

text \<open>
  Claim C4. The response handlers should end in a returned value or in a thrown error of the
  class of the client, for every response. For the response with the body \<^verbatim>\<open>null\<close> (the case
  of the test of an invalid response body) \<^verbatim>\<open>Surepass.__checkAPIResponse\<close> ends in neither: the
  validation of the body fails, and the branch for that failure reads
  \<^verbatim>\<open>resp.body!.status_code\<close> to build the metadata of its \<^verbatim>\<open>RESPONSE_ERROR\<close>, which raises a
  TypeError before any \<^verbatim>\<open>SurepassError\<close> is constructed.
\<close>

theorem checkAPIResponse_null_body_TypeError:
  "(checkAPIResponse (schema_validate SurepassResponseSchema) listCauses
      \<lparr>status = 200, body = JNull\<rparr>
      (Some (schema_validate SurepassNameMatchSchema)) :: (json, unit) outcome) =
     Throw (TypeError ''Cannot read properties of null (reading 'status_code')'') \<and>
   \<not> is_domain_error SurepassErrorClass
       (TypeError ''Cannot read properties of null (reading 'status_code')'' :: unit thrown)"
  by code_simp

theorem checkAPIResponse_null_body_TypeError_witness:
  "(\<nexists>v. (checkAPIResponse (schema_validate SurepassResponseSchema) listCauses
           \<lparr>status = 200, body = JNull\<rparr>
           (Some (schema_validate SurepassNameMatchSchema)) :: (json, unit) outcome) = Return v) \<and>
   (\<nexists>e. (checkAPIResponse (schema_validate SurepassResponseSchema) listCauses
           \<lparr>status = 200, body = JNull\<rparr>
           (Some (schema_validate SurepassNameMatchSchema)) :: (json, unit) outcome) = Throw e \<and>
        is_domain_error SurepassErrorClass e)"
  using checkAPIResponse_null_body_TypeError by auto

text \<open>
  Claim C5. A response with the status 200 whose body fails the guard of the operation makes
  \<^verbatim>\<open>OpenExchange.__handle\<close> throw an \<^verbatim>\<open>OpenExchangeError\<close> with the code \<^verbatim>\<open>RESPONSE_ERROR\<close>; a
  response whose body passes the response schema, with \<^verbatim>\<open>success\<close> not false, and whose data
  fail the validator of the operation makes \<^verbatim>\<open>Surepass.__checkAPIResponse\<close> throw a
  \<^verbatim>\<open>SurepassError\<close> with the code \<^verbatim>\<open>PARSE_ERROR\<close>; neither returns. A body that lacks a
  required field of a schema, or has a field of the wrong type, fails the validation of
  the schema; the validation gives the whole body or an error and no value.
\<close>

theorem schema_failure_rejects:
  fixes errorSchema guard schema validate :: "json \<Rightarrow> 'e option \<times> json"
  shows
  "(status resp = 200 \<and> guard (body resp) = (Some ve, b) \<longrightarrow>
      throws_code OpenExchangeErrorClass ''RESPONSE_ERROR''
        (handle errorSchema json_of resp guard :: (json, 'x) outcome)) \<and>
   (schema (body resp) = (None, respObj) \<and> truthy respObj \<and>
    get_prop respObj ''success'' \<noteq> Inr (JBool False) \<and>
    get_prop respObj ''data'' = Inr d \<and> validate d = (Some ve, b) \<longrightarrow>
      throws_code SurepassErrorClass ''PARSE_ERROR''
        (checkAPIResponse schema list_causes resp (Some validate) :: (json, 'x) outcome)) \<and>
   ((name, g, opt) \<in> set decls \<and>
    ((map_of kvs name = None \<and> \<not> opt) \<or>
     (\<exists>v. map_of kvs name = Some v \<and> v \<noteq> JUndefined \<and> \<not> guard_ok g v)) \<longrightarrow>
      fst (schema_validate decls (JObj kvs)) \<noteq> None \<and>
      snd (schema_validate decls (JObj kvs)) = JUndefined) \<and>
   (schema_validate decls bd = (None, bd) \<or>
    (fst (schema_validate decls bd) \<noteq> None \<and> snd (schema_validate decls bd) = JUndefined))"
proof (intro conjI impI)
  assume "status resp = 200 \<and> guard (body resp) = (Some ve, b)"
  then show "throws_code OpenExchangeErrorClass ''RESPONSE_ERROR''
        (handle errorSchema json_of resp guard :: (json, 'x) outcome)"
    by (simp add: handle_200 throws_code_OpenExchangeError del: throws_code.simps)
next
  assume a: "schema (body resp) = (None, respObj) \<and> truthy respObj \<and>
    get_prop respObj ''success'' \<noteq> Inr (JBool False) \<and>
    get_prop respObj ''data'' = Inr d \<and> validate d = (Some ve, b)"
  then have a1: "schema (body resp) = (None, respObj)" and a2: "truthy respObj"
    and a3: "get_prop respObj ''success'' \<noteq> Inr (JBool False)"
    and a4: "get_prop respObj ''data'' = Inr d" and a5: "validate d = (Some ve, b)"
    by simp_all
  show "throws_code SurepassErrorClass ''PARSE_ERROR''
        (checkAPIResponse schema list_causes resp (Some validate) :: (json, 'x) outcome)"
    unfolding checkAPIResponse_validated [where schema = schema and resp = resp
        and validate = validate and d = d, OF a1 a2 a3 a4 a5]
    by (simp add: throws_code_SurepassError del: throws_code.simps)
next
  assume "(name, g, opt) \<in> set decls \<and>
    ((map_of kvs name = None \<and> \<not> opt) \<or>
     (\<exists>v. map_of kvs name = Some v \<and> v \<noteq> JUndefined \<and> \<not> guard_ok g v))"
  then show "fst (schema_validate decls (JObj kvs)) \<noteq> None"
    and "snd (schema_validate decls (JObj kvs)) = JUndefined"
    using schema_validate_rejects [of name g opt decls kvs] by blast+
next
  show "schema_validate decls bd = (None, bd) \<or>
    (fst (schema_validate decls bd) \<noteq> None \<and> snd (schema_validate decls bd) = JUndefined)"
    by (rule schema_validate_all_or_nothing)
qed

theorem schema_failure_rejects_witness:
  "throws_code OpenExchangeErrorClass ''RESPONSE_ERROR''
     (handle (schema_validate ErrorSchemaObject) toJSON
        \<lparr>status = 200, body = JObj [(''invalid'', JStr ''response'')]\<rparr>
        (schema_validate LatestRatesSchemaObject) :: (json, unit) outcome) \<and>
   throws_code SurepassErrorClass ''PARSE_ERROR''
     (checkAPIResponse (schema_validate SurepassResponseSchema) listCauses
        \<lparr>status = 200,
         body = JObj [(''status_code'', JNum 200), (''success'', JBool True),
                      (''data'', JObj [(''invalid_field'', JStr ''x'')])]\<rparr>
        (Some (schema_validate SurepassNameMatchSchema)) :: (json, unit) outcome) \<and>
   fst (schema_validate SurepassNameMatchSchema (JObj [(''client_id'', JStr ''test-client-123'')]))
     \<noteq> None"
proof -
  let ?b1 = "JObj [(''invalid'', JStr ''response'')]"
  let ?d = "JObj [(''invalid_field'', JStr ''x'')]"
  let ?b2 = "JObj [(''status_code'', JNum 200), (''success'', JBool True), (''data'', ?d)]"
  have g1: "schema_validate LatestRatesSchemaObject ?b1 =
      (Some (GuardianError [''rates'']), JUndefined)"
    by code_simp
  have s2: "schema_validate SurepassResponseSchema ?b2 = (None, ?b2)"
    by code_simp
  have v2: "schema_validate SurepassNameMatchSchema ?d =
      (Some (GuardianError [''client_id'', ''name_1'', ''name_2'', ''match_score'',
         ''match_status'']), JUndefined)"
    by code_simp
  have f3: "(''name_1'', GString, False) \<in> set SurepassNameMatchSchema"
    by (simp add: SurepassNameMatchSchema_def)
  note t1 = schema_failure_rejects [where resp = "\<lparr>status = 200, body = ?b1\<rparr>"
      and guard = "schema_validate LatestRatesSchemaObject"
      and errorSchema = "schema_validate ErrorSchemaObject" and json_of = toJSON,
      where ?'x = unit, THEN conjunct1]
  note t2 = schema_failure_rejects [where resp = "\<lparr>status = 200, body = ?b2\<rparr>"
      and schema = "schema_validate SurepassResponseSchema" and respObj = ?b2 and d = ?d
      and validate = "schema_validate SurepassNameMatchSchema" and list_causes = listCauses,
      where ?'x = unit, THEN conjunct2, THEN conjunct1]
  note t3 = schema_failure_rejects [where name = "''name_1''" and g = GString and opt = False
      and decls = SurepassNameMatchSchema and kvs = "[(''client_id'', JStr ''test-client-123'')]",
      where ?'e = guardian_error and ?'x = unit, THEN conjunct2, THEN conjunct2, THEN conjunct1]
  have c1: "throws_code OpenExchangeErrorClass ''RESPONSE_ERROR''
     (handle (schema_validate ErrorSchemaObject) toJSON \<lparr>status = 200, body = ?b1\<rparr>
        (schema_validate LatestRatesSchemaObject) :: (json, unit) outcome)"
    using t1 g1 by (simp del: throws_code.simps)
  have c2: "throws_code SurepassErrorClass ''PARSE_ERROR''
     (checkAPIResponse (schema_validate SurepassResponseSchema) listCauses
        \<lparr>status = 200, body = ?b2\<rparr>
        (Some (schema_validate SurepassNameMatchSchema)) :: (json, unit) outcome)"
    using t2 s2 v2 by (simp del: throws_code.simps)
  have c3: "fst (schema_validate SurepassNameMatchSchema
      (JObj [(''client_id'', JStr ''test-client-123'')])) \<noteq> None"
    using t3 f3 by simp
  from c1 c2 c3 show ?thesis by (intro conjI)
qed

section \<open>Properties of the operations\<close>

lemma surepass_catch_is_SurepassError:
  "is_domain_error SurepassErrorClass (surepass_catch ep e) \<and>
   map_of (err_context (surepass_catch ep e)) ''endpoint'' = Some (JStr ep)"
  by (cases "(ep, e)" rule: surepass_catch.cases)
     (simp_all add: map_of_set_prop SurepassError_def new_error_def table_get_def
        SurepassErrorCodes_def)

lemma surepass_catch_SurepassError:
  assumes "is_domain_error SurepassErrorClass e"
  shows "surepass_catch ep e =
     DomainError SurepassErrorClass (err_code e) (err_entry e)
       (set_prop ''endpoint'' (JStr ep) (err_context e)) (err_cause e)"
  using assms by (cases "(ep, e)" rule: surepass_catch.cases) simp_all

lemma surepass_catch_other:
  assumes "\<not> is_domain_error SurepassErrorClass e"
  shows "surepass_catch ep e =
     DomainError SurepassErrorClass ''UNHANDLED_ERROR'' (Some (Text ''An unhandled error occurred.''))
       [(''endpoint'', JStr ep)] (if e = ThrownUndefined then None else Some e)"
  using assms
  by (cases "(ep, e)" rule: surepass_catch.cases)
     (simp_all add: SurepassError_def new_error_def table_get_def SurepassErrorCodes_def)

lemma surepass_call_unfold:
  "surepass_call makeRequest schema list_causes validator ep pl =
     (case makeRequest (surepass_request ep pl) of
        Inl c \<Rightarrow> Throw (surepass_catch ep c)
      | Inr resp \<Rightarrow>
          (case checkAPIResponse schema list_causes resp (Some validator) of
             Return d \<Rightarrow> Return d
           | Throw c \<Rightarrow> Throw (surepass_catch ep c)))"
  by (simp add: surepass_call_def split: sum.splits)

lemma surepass_call_throws:
  assumes "surepass_call makeRequest schema list_causes validator ep pl = Throw e"
  shows "is_domain_error SurepassErrorClass e \<and> map_of (err_context e) ''endpoint'' = Some (JStr ep)"
proof -
  from assms obtain c where "e = surepass_catch ep c"
    by (auto simp: surepass_call_unfold split: sum.splits outcome.splits)
  then show ?thesis using surepass_catch_is_SurepassError by blast
qed

lemma surepass_call_caught:
  assumes "makeRequest (surepass_request ep pl) = Inl c \<or>
     (\<exists>resp. makeRequest (surepass_request ep pl) = Inr resp \<and>
        checkAPIResponse schema list_causes resp (Some validator) = Throw c)"
  shows "surepass_call makeRequest schema list_causes validator ep pl = Throw (surepass_catch ep c)"
  using assms by (auto simp: surepass_call_unfold)

lemma surepass_call_returns:
  fixes makeRequest :: "'x transport"
  assumes "makeRequest (surepass_request ep pl) = Inr resp"
    and "checkAPIResponse schema list_causes resp (Some validator) = (Return d :: (json, 'x) outcome)"
  shows "surepass_call makeRequest schema list_causes validator ep pl = Return d"
  using assms by (simp add: surepass_call_unfold)

text \<open>
  The response with the body \<^verbatim>\<open>null\<close> at the boundary of an operation: the TypeError of the
  response handler is caught and becomes the cause of an \<^verbatim>\<open>UNHANDLED_ERROR\<close>.
\<close>

lemma verifyPAN_null_body:
  "(verifyPAN (answering \<lparr>status = 200, body = JNull\<rparr>) (schema_validate SurepassResponseSchema)
      listCauses (schema_validate SurepassNameMatchSchema) ''BNZAA2318J'' :: (json, unit) outcome) =
     Throw (DomainError SurepassErrorClass ''UNHANDLED_ERROR''
       (Some (Text ''An unhandled error occurred.''))
       [(''endpoint'', JStr ''pan/pan-comprehensive-plus'')]
       (Some (TypeError ''Cannot read properties of null (reading 'status_code')'')))"
  by code_simp

lemma openexchange_call_throws:
  assumes "makeRequest req = Inl c \<or>
     (\<exists>resp. makeRequest req = Inr resp \<and> handle errorSchema json_of resp guard = Throw c)"
  shows "openexchange_call makeRequest errorSchema json_of guard req = Throw c"
  using assms by (auto simp: openexchange_call_def)

text \<open>
  Claim C3, as stated, fails for the OpenExchange client: \<^verbatim>\<open>getRates\<close> has no \<^verbatim>\<open>try\<close>, and a
  failure of the transport reaches the caller as it was thrown.
\<close>

theorem getRates_transport_failure_counterexample:
  "(getRates (failing (Foreign ''Network error'')) (schema_validate ErrorSchemaObject) toJSON
      (schema_validate LatestRatesSchemaObject) ascii_toUpperCase None None
        :: (json, string) outcome) =
     Throw (Foreign ''Network error'') \<and>
   \<not> is_domain_error OpenExchangeErrorClass (Foreign ''Network error'' :: string thrown)"
  by (simp add: getRates_def openexchange_call_def failing_def)

text \<open>
  Claim C3, amended. Each of the seven operations of the Surepass client sends one request
  and hands the response to the response handler. When the handler returns, the operation
  returns that result. When the transport or the handler throws a \<^verbatim>\<open>SurepassError\<close>, the
  operation throws that error, with its code, its table entry and its cause, and the
  endpoint added to its context: it is not wrapped. When either throws anything else, the
  operation throws an \<^verbatim>\<open>UNHANDLED_ERROR\<close> with the endpoint in its context, whose cause is what
  was thrown, and which has no cause when \<^verbatim>\<open>undefined\<close> was thrown. So whatever an operation of
  the Surepass client throws is a \<^verbatim>\<open>SurepassError\<close> that has the endpoint in its context.
  The seven operations of the OpenExchange client catch nothing: what the transport or the
  response handler throws is what the operation throws.
\<close>

theorem operations_error_propagation:
  fixes makeRequest :: "'x transport"
    and schema validator errorSchema guard :: "json \<Rightarrow> 'e option \<times> json"
  assumes "(r, ep, pl) \<in>
     {(compareNames makeRequest schema list_causes validator name1 name2 isCompany,
         ''utils/name-matching/'',
         JObj [(''name_1'', JStr (trim name1)), (''name_2'', JStr (trim name2)),
               (''name_type'', JStr (if isCompany then ''company'' else ''person''))]),
      (verifyBankAccount makeRequest schema list_causes validator accountNumber ifsc,
         ''bank-verification'',
         JObj [(''id_number'', JStr accountNumber), (''ifsc'', JStr ifsc),
               (''ifsc_details'', JBool True)]),
      (verifyPAN makeRequest schema list_causes validator pan,
         ''pan/pan-comprehensive-plus'', JObj [(''id_number'', JStr pan)]),
      (initiateAadhaar makeRequest schema list_causes validator aadhaar,
         ''aadhaar-v2/generate-otp'', JObj [(''id_number'', JStr aadhaar)]),
      (fetchAadhaar makeRequest schema list_causes validator clientId otp,
         ''aadhaar-v2/submit-otp'', JObj [(''client_id'', JStr clientId), (''otp'', JStr otp)]),
      (verifyCIN makeRequest schema list_causes validator cin,
         ''corporate/company-details'', JObj [(''id_number'', JStr cin)]),
      (verifyGSTIN makeRequest schema list_causes validator gstin,
         ''corporate/gstin'', JObj [(''id_number'', JStr gstin)])}"
  shows
    "(\<forall>resp d. makeRequest (surepass_request ep pl) = Inr resp \<and>
        checkAPIResponse schema list_causes resp (Some validator) =
          (Return d :: (json, 'x) outcome) \<longrightarrow>
          r = Return d) \<and>
     (\<forall>c. makeRequest (surepass_request ep pl) = Inl c \<or>
          (\<exists>resp. makeRequest (surepass_request ep pl) = Inr resp \<and>
             checkAPIResponse schema list_causes resp (Some validator) = Throw c) \<longrightarrow>
        (is_domain_error SurepassErrorClass c \<longrightarrow>
           r = Throw (DomainError SurepassErrorClass (err_code c) (err_entry c)
                 (set_prop ''endpoint'' (JStr ep) (err_context c)) (err_cause c))) \<and>
        (\<not> is_domain_error SurepassErrorClass c \<longrightarrow>
           r = Throw (DomainError SurepassErrorClass ''UNHANDLED_ERROR''
                 (Some (Text ''An unhandled error occurred.''))
                 [(''endpoint'', JStr ep)]
                 (if c = ThrownUndefined then None else Some c)))) \<and>
     (\<forall>e. r = Throw e \<longrightarrow>
        is_domain_error SurepassErrorClass e \<and>
        map_of (err_context e) ''endpoint'' = Some (JStr ep)) \<and>
     (\<forall>res req.
        (res, req) \<in>
          {(getStatus makeRequest errorSchema json_of guard, getStatus_request),
           (listCurrencies makeRequest errorSchema json_of guard, listCurrencies_request),
           (getRates makeRequest errorSchema json_of guard toUpperCase bc options,
              getRates_request toUpperCase bc options),
           (getHistoricalRates makeRequest errorSchema json_of guard toUpperCase bc day options,
              getHistoricalRates_request toUpperCase bc day options),
           (getTimeSeries makeRequest errorSchema json_of guard toUpperCase bc startDate endDate
              options,
              getTimeSeries_request toUpperCase bc startDate endDate options),
           (convert makeRequest errorSchema json_of guard toUpperCase toString amount src dst date,
              convert_request toUpperCase toString amount src dst date),
           (getOHLC makeRequest errorSchema json_of guard toUpperCase bc startDate period options,
              getOHLC_request toUpperCase bc startDate period options)} \<longrightarrow>
        (\<forall>c. makeRequest req = Inl c \<or>
             (\<exists>resp. makeRequest req = Inr resp \<and>
                handle errorSchema json_of resp guard = Throw c) \<longrightarrow>
           res = Throw c))"
proof -
  from assms have r: "r = surepass_call makeRequest schema list_causes validator ep pl"
    unfolding compareNames_def verifyBankAccount_def verifyPAN_def initiateAadhaar_def
      fetchAadhaar_def verifyCIN_def verifyGSTIN_def
    by (elim insertE emptyE) (simp_all only: prod.inject)
  have p0: "\<forall>resp d. makeRequest (surepass_request ep pl) = Inr resp \<and>
        checkAPIResponse schema list_causes resp (Some validator) =
          (Return d :: (json, 'x) outcome) \<longrightarrow>
          r = Return d"
    unfolding r using surepass_call_returns by blast
  have p2: "\<forall>c. makeRequest (surepass_request ep pl) = Inl c \<or>
          (\<exists>resp. makeRequest (surepass_request ep pl) = Inr resp \<and>
             checkAPIResponse schema list_causes resp (Some validator) = Throw c) \<longrightarrow>
        (is_domain_error SurepassErrorClass c \<longrightarrow>
           r = Throw (DomainError SurepassErrorClass (err_code c) (err_entry c)
                 (set_prop ''endpoint'' (JStr ep) (err_context c)) (err_cause c))) \<and>
        (\<not> is_domain_error SurepassErrorClass c \<longrightarrow>
           r = Throw (DomainError SurepassErrorClass ''UNHANDLED_ERROR''
                 (Some (Text ''An unhandled error occurred.''))
                 [(''endpoint'', JStr ep)]
                 (if c = ThrownUndefined then None else Some c)))"
  proof (intro allI impI conjI)
    fix c
    assume m: "makeRequest (surepass_request ep pl) = Inl c \<or>
          (\<exists>resp. makeRequest (surepass_request ep pl) = Inr resp \<and>
             checkAPIResponse schema list_causes resp (Some validator) = Throw c)"
    have rc: "r = Throw (surepass_catch ep c)"
      unfolding r using m by (rule surepass_call_caught)
    { assume "is_domain_error SurepassErrorClass c"
      then show "r = Throw (DomainError SurepassErrorClass (err_code c) (err_entry c)
                 (set_prop ''endpoint'' (JStr ep) (err_context c)) (err_cause c))"
        unfolding rc by (simp add: surepass_catch_SurepassError del: surepass_catch.simps) }
    { assume "\<not> is_domain_error SurepassErrorClass c"
      then show "r = Throw (DomainError SurepassErrorClass ''UNHANDLED_ERROR''
                 (Some (Text ''An unhandled error occurred.''))
                 [(''endpoint'', JStr ep)]
                 (if c = ThrownUndefined then None else Some c))"
        unfolding rc by (simp add: surepass_catch_other del: surepass_catch.simps) }
  qed
  have p1: "\<forall>e. r = Throw e \<longrightarrow>
        is_domain_error SurepassErrorClass e \<and>
        map_of (err_context e) ''endpoint'' = Some (JStr ep)"
    unfolding r using surepass_call_throws by blast
  have p3: "\<forall>res req.
        (res, req) \<in>
          {(getStatus makeRequest errorSchema json_of guard, getStatus_request),
           (listCurrencies makeRequest errorSchema json_of guard, listCurrencies_request),
           (getRates makeRequest errorSchema json_of guard toUpperCase bc options,
              getRates_request toUpperCase bc options),
           (getHistoricalRates makeRequest errorSchema json_of guard toUpperCase bc day options,
              getHistoricalRates_request toUpperCase bc day options),
           (getTimeSeries makeRequest errorSchema json_of guard toUpperCase bc startDate endDate
              options,
              getTimeSeries_request toUpperCase bc startDate endDate options),
           (convert makeRequest errorSchema json_of guard toUpperCase toString amount src dst date,
              convert_request toUpperCase toString amount src dst date),
           (getOHLC makeRequest errorSchema json_of guard toUpperCase bc startDate period options,
              getOHLC_request toUpperCase bc startDate period options)} \<longrightarrow>
        (\<forall>c. makeRequest req = Inl c \<or>
             (\<exists>resp. makeRequest req = Inr resp \<and>
                handle errorSchema json_of resp guard = Throw c) \<longrightarrow>
           res = Throw c)"
  proof (intro allI impI)
    fix res req c
    assume mem: "(res, req) \<in>
          {(getStatus makeRequest errorSchema json_of guard, getStatus_request),
           (listCurrencies makeRequest errorSchema json_of guard, listCurrencies_request),
           (getRates makeRequest errorSchema json_of guard toUpperCase bc options,
              getRates_request toUpperCase bc options),
           (getHistoricalRates makeRequest errorSchema json_of guard toUpperCase bc day options,
              getHistoricalRates_request toUpperCase bc day options),
           (getTimeSeries makeRequest errorSchema json_of guard toUpperCase bc startDate endDate
              options,
              getTimeSeries_request toUpperCase bc startDate endDate options),
           (convert makeRequest errorSchema json_of guard toUpperCase toString amount src dst date,
              convert_request toUpperCase toString amount src dst date),
           (getOHLC makeRequest errorSchema json_of guard toUpperCase bc startDate period options,
              getOHLC_request toUpperCase bc startDate period options)}"
    assume "makeRequest req = Inl c \<or>
             (\<exists>resp. makeRequest req = Inr resp \<and>
                handle errorSchema json_of resp guard = Throw c)"
    then have oc: "openexchange_call makeRequest errorSchema json_of guard req = Throw c"
      by (rule openexchange_call_throws)
    from mem have "res = openexchange_call makeRequest errorSchema json_of guard req \<or>
        res = (case openexchange_call makeRequest errorSchema json_of guard req of
                 Return ratesData \<Rightarrow> read_prop ratesData ''rates'' Return
               | Throw e \<Rightarrow> Throw e)"
      unfolding getStatus_def listCurrencies_def getRates_def getHistoricalRates_def
        getTimeSeries_def convert_def getOHLC_def
      by (elim insertE emptyE) (simp_all only: prod.inject, simp_all)
    then show "res = Throw c"
      by (auto simp: oc)
  qed
  from p0 p2 p1 p3 show ?thesis by (intro conjI)
qed

lemma checkAPIResponse_invalidTokenBody:
  "(checkAPIResponse (schema_validate SurepassResponseSchema) listCauses
      \<lparr>status = 401, body = invalidTokenBody\<rparr>
      (Some (schema_validate SurepassNameMatchSchema)) :: (json, string) outcome) =
     Throw (DomainError SurepassErrorClass ''INVALID_TOKEN''
       (Some (Text ''The bearer token has either expired or is invalid or does not have access to this scope.''))
       [(''statusCode'', JNum 401), (''message'', JStr ''Invalid token''),
        (''details'', JUndefined)] None)"
  by code_simp

lemma handle_mockErrorResponse:
  "(handle (schema_validate ErrorSchemaObject) toJSON \<lparr>status = 401, body = mockErrorResponse\<rparr>
      (schema_validate LatestRatesSchemaObject) :: (json, string) outcome) =
     Throw (DomainError OpenExchangeErrorClass ''INVALID_APP_ID''
       (Some (Text ''Invalid application ID provided (expired or de-activated application id).''))
       [(''status'', JNum 401), (''body'', mockErrorResponse)] None)"
  by code_simp

theorem operations_error_propagation_witness:
  "(verifyPAN (answering \<lparr>status = 401, body = invalidTokenBody\<rparr>)
      (schema_validate SurepassResponseSchema)
      listCauses (schema_validate SurepassNameMatchSchema) ''BNZAA2318J'' :: (json, string) outcome) =
     Throw (DomainError SurepassErrorClass ''INVALID_TOKEN''
       (Some (Text ''The bearer token has either expired or is invalid or does not have access to this scope.''))
       [(''statusCode'', JNum 401), (''message'', JStr ''Invalid token''),
        (''details'', JUndefined), (''endpoint'', JStr ''pan/pan-comprehensive-plus'')] None) \<and>
   (verifyPAN (failing (Foreign ''Network error'')) (schema_validate SurepassResponseSchema)
      listCauses (schema_validate SurepassNameMatchSchema) ''BNZAA2318J'' :: (json, string) outcome) =
     Throw (DomainError SurepassErrorClass ''UNHANDLED_ERROR''
       (Some (Text ''An unhandled error occurred.''))
       [(''endpoint'', JStr ''pan/pan-comprehensive-plus'')] (Some (Foreign ''Network error''))) \<and>
   (verifyPAN (failing (SurepassError ''INVALID_TOKEN'' None None))
      (schema_validate SurepassResponseSchema)
      listCauses (schema_validate SurepassNameMatchSchema) ''BNZAA2318J'' :: (json, string) outcome) =
     Throw (DomainError SurepassErrorClass ''INVALID_TOKEN''
       (Some (Text ''The bearer token has either expired or is invalid or does not have access to this scope.''))
       [(''endpoint'', JStr ''pan/pan-comprehensive-plus'')] None) \<and>
   (getRates (answering \<lparr>status = 401, body = mockErrorResponse\<rparr>)
      (schema_validate ErrorSchemaObject) toJSON (schema_validate LatestRatesSchemaObject)
      ascii_toUpperCase None None :: (json, string) outcome) =
     Throw (DomainError OpenExchangeErrorClass ''INVALID_APP_ID''
       (Some (Text ''Invalid application ID provided (expired or de-activated application id).''))
       [(''status'', JNum 401), (''body'', mockErrorResponse)] None)"
proof -
  let ?f = "Foreign ''Network error'' :: string thrown"
  let ?s = "SurepassError ''INVALID_TOKEN'' None None :: string thrown"
  let ?h = "DomainError SurepassErrorClass ''INVALID_TOKEN''
       (Some (Text ''The bearer token has either expired or is invalid or does not have access to this scope.''))
       [(''statusCode'', JNum 401), (''message'', JStr ''Invalid token''),
        (''details'', JUndefined)] None :: string thrown"
  let ?a = "answering \<lparr>status = 401, body = invalidTokenBody\<rparr> :: string transport"
  let ?S = "schema_validate SurepassResponseSchema"
  let ?V = "schema_validate SurepassNameMatchSchema"
  let ?ep = "''pan/pan-comprehensive-plus''"
  let ?pl = "JObj [(''id_number'', JStr ''BNZAA2318J'')]"
  have s: "?s = DomainError SurepassErrorClass ''INVALID_TOKEN''
       (Some (Text ''The bearer token has either expired or is invalid or does not have access to this scope.''))
       [] None"
    by (simp add: SurepassError_def new_error_def INVALID_TOKEN_entry)
  have mem: "\<And>mk :: string transport.
     (verifyPAN mk ?S listCauses ?V ''BNZAA2318J'', ?ep, ?pl) \<in>
     {(compareNames mk ?S listCauses ?V [] [] False,
         ''utils/name-matching/'',
         JObj [(''name_1'', JStr (trim [])), (''name_2'', JStr (trim [])),
               (''name_type'', JStr (if False then ''company'' else ''person''))]),
      (verifyBankAccount mk ?S listCauses ?V [] [],
         ''bank-verification'',
         JObj [(''id_number'', JStr []), (''ifsc'', JStr []),
               (''ifsc_details'', JBool True)]),
      (verifyPAN mk ?S listCauses ?V ''BNZAA2318J'',
         ''pan/pan-comprehensive-plus'', JObj [(''id_number'', JStr ''BNZAA2318J'')]),
      (initiateAadhaar mk ?S listCauses ?V [],
         ''aadhaar-v2/generate-otp'', JObj [(''id_number'', JStr [])]),
      (fetchAadhaar mk ?S listCauses ?V [] [],
         ''aadhaar-v2/submit-otp'', JObj [(''client_id'', JStr []), (''otp'', JStr [])]),
      (verifyCIN mk ?S listCauses ?V [],
         ''corporate/company-details'', JObj [(''id_number'', JStr [])]),
      (verifyGSTIN mk ?S listCauses ?V [],
         ''corporate/gstin'', JObj [(''id_number'', JStr [])])}"
    by (intro insertI2 insertI1)
  have nf: "\<not> is_domain_error SurepassErrorClass ?f" "?f \<noteq> ThrownUndefined" by simp_all
  have ds: "is_domain_error SurepassErrorClass ?s" by (simp add: s)
  have dh: "is_domain_error SurepassErrorClass ?h" by simp
  have ha: "?a (surepass_request ?ep ?pl) = Inr \<lparr>status = 401, body = invalidTokenBody\<rparr> \<and>
      checkAPIResponse ?S listCauses \<lparr>status = 401, body = invalidTokenBody\<rparr> (Some ?V) = Throw ?h"
    by (simp add: answering_def checkAPIResponse_invalidTokenBody)
  have hf: "failing ?f (surepass_request ?ep ?pl) = Inl ?f" by (simp add: failing_def)
  have hs: "failing ?s (surepass_request ?ep ?pl) = Inl ?s" by (simp add: failing_def)
  from operations_error_propagation [OF mem [of ?a], THEN conjunct2, THEN conjunct1,
      rule_format, of ?h] ha dh
  have "(verifyPAN ?a ?S listCauses ?V ''BNZAA2318J'' :: (json, string) outcome) =
     Throw (DomainError SurepassErrorClass (err_code ?h) (err_entry ?h)
                 (set_prop ''endpoint'' (JStr ?ep) (err_context ?h)) (err_cause ?h))"
    by blast
  then have c0: "(verifyPAN ?a ?S listCauses ?V ''BNZAA2318J'' :: (json, string) outcome) =
     Throw (DomainError SurepassErrorClass ''INVALID_TOKEN''
       (Some (Text ''The bearer token has either expired or is invalid or does not have access to this scope.''))
       [(''statusCode'', JNum 401), (''message'', JStr ''Invalid token''),
        (''details'', JUndefined), (''endpoint'', JStr ''pan/pan-comprehensive-plus'')] None)"
    by simp
  from operations_error_propagation [OF mem [of "failing ?f"], THEN conjunct2, THEN conjunct1,
      rule_format, of ?f] hf nf
  have c1: "(verifyPAN (failing ?f) ?S listCauses ?V ''BNZAA2318J'' :: (json, string) outcome) =
     Throw (DomainError SurepassErrorClass ''UNHANDLED_ERROR''
       (Some (Text ''An unhandled error occurred.''))
       [(''endpoint'', JStr ''pan/pan-comprehensive-plus'')] (Some ?f))"
    by simp
  from operations_error_propagation [OF mem [of "failing ?s"], THEN conjunct2, THEN conjunct1,
      rule_format, of ?s] hs ds
  have "(verifyPAN (failing ?s) ?S listCauses ?V ''BNZAA2318J'' :: (json, string) outcome) =
     Throw (DomainError SurepassErrorClass (err_code ?s) (err_entry ?s)
                 (set_prop ''endpoint'' (JStr ''pan/pan-comprehensive-plus'') (err_context ?s))
                 (err_cause ?s))"
    by blast
  then have c2: "(verifyPAN (failing ?s) ?S listCauses ?V ''BNZAA2318J'' :: (json, string) outcome) =
     Throw (DomainError SurepassErrorClass ''INVALID_TOKEN''
       (Some (Text ''The bearer token has either expired or is invalid or does not have access to this scope.''))
       [(''endpoint'', JStr ''pan/pan-comprehensive-plus'')] None)"
    by (simp add: s)
  let ?b = "answering \<lparr>status = 401, body = mockErrorResponse\<rparr> :: string transport"
  let ?E = "schema_validate ErrorSchemaObject"
  let ?G = "schema_validate LatestRatesSchemaObject"
  let ?oe = "DomainError OpenExchangeErrorClass ''INVALID_APP_ID''
       (Some (Text ''Invalid application ID provided (expired or de-activated application id).''))
       [(''status'', JNum 401), (''body'', mockErrorResponse)] None :: string thrown"
  have memo: "(getRates ?b ?E toJSON ?G ascii_toUpperCase None None,
       getRates_request ascii_toUpperCase None None) \<in>
          {(getStatus ?b ?E toJSON ?G, getStatus_request),
           (listCurrencies ?b ?E toJSON ?G, listCurrencies_request),
           (getRates ?b ?E toJSON ?G ascii_toUpperCase None None,
              getRates_request ascii_toUpperCase None None),
           (getHistoricalRates ?b ?E toJSON ?G ascii_toUpperCase None [] None,
              getHistoricalRates_request ascii_toUpperCase None [] None),
           (getTimeSeries ?b ?E toJSON ?G ascii_toUpperCase None [] [] None,
              getTimeSeries_request ascii_toUpperCase None [] [] None),
           (convert ?b ?E toJSON ?G ascii_toUpperCase whole_toString 0 [] [] None,
              convert_request ascii_toUpperCase whole_toString 0 [] [] None),
           (getOHLC ?b ?E toJSON ?G ascii_toUpperCase None [] [] None,
              getOHLC_request ascii_toUpperCase None [] [] None)}"
    by (intro insertI2 insertI1)
  have hb: "?b (getRates_request ascii_toUpperCase None None) =
        Inr \<lparr>status = 401, body = mockErrorResponse\<rparr> \<and>
      handle ?E toJSON \<lparr>status = 401, body = mockErrorResponse\<rparr> ?G = Throw ?oe"
    by (simp add: answering_def handle_mockErrorResponse)
  from operations_error_propagation [where errorSchema = ?E and json_of = toJSON
      and guard = ?G and toUpperCase = ascii_toUpperCase and bc = None and options = None
      and day = "[]" and startDate = "[]" and endDate = "[]" and period = "[]"
      and toString = whole_toString and amount = 0 and src = "[]" and dst = "[]"
      and date = None, OF mem [of ?b], THEN conjunct2, THEN conjunct2, THEN conjunct2,
      rule_format, OF memo, of ?oe] hb
  have c3: "(getRates ?b ?E toJSON ?G ascii_toUpperCase None None :: (json, string) outcome) =
      Throw ?oe"
    by blast
  from c0 c1 c2 c3 show ?thesis by (intro conjI)
qed


section \<open>Properties of the requests\<close>

lemma rates_query_symbols:
  assumes "map_of query0 ''symbols'' = None"
  shows "map_of (rates_query toUpperCase query0 baseCurrency options) ''symbols'' =
     (case (case options of None \<Rightarrow> None | Some opts \<Rightarrow> symbols opts) of
        None \<Rightarrow> None
      | Some syms \<Rightarrow> if syms = [] then None else Some (join '','' (map toUpperCase syms)))"
  using assms
  by (simp add: rates_query_def Let_def map_of_set_prop split: option.splits field.splits)

text \<open>
  Claim C8. For every value of the built-in methods \<^verbatim>\<open>toUpperCase\<close> and \<^verbatim>\<open>toString\<close>: the query
  of \<^verbatim>\<open>convert\<close> has under \<^verbatim>\<open>from\<close> and \<^verbatim>\<open>to\<close> the results of \<^verbatim>\<open>toUpperCase\<close> on the two
  arguments, so that arguments with the same upper-case forms give the same query, whatever
  their case. The query of \<^verbatim>\<open>getRates\<close>, \<^verbatim>\<open>getHistoricalRates\<close>, \<^verbatim>\<open>getTimeSeries\<close> and
  \<^verbatim>\<open>getOHLC\<close> has, for a non-empty list of symbols, the key \<^verbatim>\<open>symbols\<close> with the results of
  \<^verbatim>\<open>toUpperCase\<close> on the symbols joined by commas, and has no key \<^verbatim>\<open>symbols\<close> when the list is
  absent or empty.
\<close>

theorem request_query_normalized:
  "map_of (convert_query toUpperCase toString amount src dst date) ''from'' =
     Some (toUpperCase src) \<and>
   map_of (convert_query toUpperCase toString amount src dst date) ''to'' =
     Some (toUpperCase dst) \<and>
   (toUpperCase src = toUpperCase src' \<and> toUpperCase dst = toUpperCase dst' \<longrightarrow>
      convert_query toUpperCase toString amount src dst date =
        convert_query toUpperCase toString amount src' dst' date) \<and>
   query (convert_request toUpperCase toString amount src dst date) =
     Some (convert_query toUpperCase toString amount src dst date) \<and>
   (\<forall>req \<in> {getRates_request toUpperCase baseCurrency options,
              getHistoricalRates_request toUpperCase baseCurrency day options,
              getTimeSeries_request toUpperCase baseCurrency startDate endDate options,
              getOHLC_request toUpperCase baseCurrency startDate period options}.
      \<exists>q. query req = Some q \<and>
          map_of q ''symbols'' =
            (case (case options of None \<Rightarrow> None | Some opts \<Rightarrow> symbols opts) of
               None \<Rightarrow> None
             | Some syms \<Rightarrow>
                 if syms = [] then None else Some (join '','' (map toUpperCase syms))))"
proof (intro conjI ballI impI)
  show "map_of (convert_query toUpperCase toString amount src dst date) ''from'' =
     Some (toUpperCase src)"
    by (simp add: convert_query_def Let_def map_of_set_prop split: option.splits)
  show "map_of (convert_query toUpperCase toString amount src dst date) ''to'' =
     Some (toUpperCase dst)"
    by (simp add: convert_query_def Let_def map_of_set_prop split: option.splits)
  show "query (convert_request toUpperCase toString amount src dst date) =
     Some (convert_query toUpperCase toString amount src dst date)"
    by (simp add: convert_request_def get_request_def)
next
  assume "toUpperCase src = toUpperCase src' \<and> toUpperCase dst = toUpperCase dst'"
  then show "convert_query toUpperCase toString amount src dst date =
        convert_query toUpperCase toString amount src' dst' date"
    by (simp add: convert_query_def Let_def)
next
  fix req
  assume "req \<in> {getRates_request toUpperCase baseCurrency options,
              getHistoricalRates_request toUpperCase baseCurrency day options,
              getTimeSeries_request toUpperCase baseCurrency startDate endDate options,
              getOHLC_request toUpperCase baseCurrency startDate period options}"
  then have "\<exists>query0. map_of query0 ''symbols'' = None \<and>
      query req = Some (rates_query toUpperCase query0 baseCurrency options)"
  proof (elim insertE emptyE)
    assume "req = getRates_request toUpperCase baseCurrency options"
    then have "map_of [] ''symbols'' = None \<and>
      query req = Some (rates_query toUpperCase [] baseCurrency options)"
      by (simp add: getRates_request_def get_request_def)
    then show ?thesis by blast
  next
    assume "req = getHistoricalRates_request toUpperCase baseCurrency day options"
    then have "map_of [] ''symbols'' = None \<and>
      query req = Some (rates_query toUpperCase [] baseCurrency options)"
      by (simp add: getHistoricalRates_request_def get_request_def)
    then show ?thesis by blast
  next
    assume "req = getTimeSeries_request toUpperCase baseCurrency startDate endDate options"
    then have "map_of [(''start'', startDate), (''end'', endDate)] ''symbols'' = None \<and>
      query req =
        Some (rates_query toUpperCase [(''start'', startDate), (''end'', endDate)]
                baseCurrency options)"
      by (simp add: getTimeSeries_request_def get_request_def)
    then show ?thesis by blast
  next
    assume "req = getOHLC_request toUpperCase baseCurrency startDate period options"
    then have "map_of [(''start_date'', startDate), (''period'', period)] ''symbols'' = None \<and>
      query req =
        Some (rates_query toUpperCase [(''start_date'', startDate), (''period'', period)]
                baseCurrency options)"
      by (simp add: getOHLC_request_def get_request_def)
    then show ?thesis by blast
  qed
  then obtain query0 where q0: "map_of query0 ''symbols'' = None"
    and q: "query req = Some (rates_query toUpperCase query0 baseCurrency options)"
    by blast
  from rates_query_symbols [OF q0, of toUpperCase baseCurrency options] q
  show "\<exists>q. query req = Some q \<and>
          map_of q ''symbols'' =
            (case (case options of None \<Rightarrow> None | Some opts \<Rightarrow> symbols opts) of
               None \<Rightarrow> None
             | Some syms \<Rightarrow>
                 if syms = [] then None else Some (join '','' (map toUpperCase syms)))"
    by blast
qed

theorem request_query_normalized_witness:
  "convert_query ascii_toUpperCase whole_toString 100 ''usd'' ''eur'' None =
     [(''amount'', ''100''), (''from'', ''USD''), (''to'', ''EUR'')] \<and>
   map_of (convert_query ascii_toUpperCase whole_toString 100 ''usd'' ''eur'' None) ''from'' =
     Some ''USD'' \<and>
   convert_query ascii_toUpperCase whole_toString 100 ''usd'' ''eur'' None =
     convert_query ascii_toUpperCase whole_toString 100 ''USD'' ''Eur'' None \<and>
   (\<exists>q. query (getRates_request ascii_toUpperCase None
            (Some \<lparr>base = Present ''eur'', symbols = Some [''usd'', ''gbp'']\<rparr>)) = Some q \<and>
        map_of q ''symbols'' = Some ''USD,GBP'') \<and>
   (\<exists>q. query (getRates_request ascii_toUpperCase None
            (Some \<lparr>base = Absent, symbols = Some []\<rparr>)) = Some q \<and>
        map_of q ''symbols'' = None)"
proof -
  have u: "ascii_toUpperCase ''usd'' = ''USD''" "ascii_toUpperCase ''eur'' = ''EUR''"
    "ascii_toUpperCase ''gbp'' = ''GBP''" "ascii_toUpperCase ''USD'' = ''USD''"
    "ascii_toUpperCase ''Eur'' = ''EUR''"
    by code_simp+
  have c0: "convert_query ascii_toUpperCase whole_toString 100 ''usd'' ''eur'' None =
     [(''amount'', ''100''), (''from'', ''USD''), (''to'', ''EUR'')]"
    by code_simp
  note t0 = request_query_normalized [of ascii_toUpperCase whole_toString 100 "''usd''" "''eur''"
      None "''USD''" "''Eur''"]
  have c1: "map_of (convert_query ascii_toUpperCase whole_toString 100 ''usd'' ''eur'' None) ''from'' =
     Some ''USD''"
    using t0 [THEN conjunct1] by (simp only: u)
  have c1': "convert_query ascii_toUpperCase whole_toString 100 ''usd'' ''eur'' None =
     convert_query ascii_toUpperCase whole_toString 100 ''USD'' ''Eur'' None"
    using t0 [THEN conjunct2, THEN conjunct2, THEN conjunct1] by (simp only: u simp_thms)
  let ?o1 = "Some \<lparr>base = Present ''eur'', symbols = Some [''usd'', ''gbp'']\<rparr>"
  let ?o2 = "Some \<lparr>base = Absent, symbols = Some []\<rparr>"
  have i1: "getRates_request ascii_toUpperCase None ?o1 \<in>
             {getRates_request ascii_toUpperCase None ?o1,
              getHistoricalRates_request ascii_toUpperCase None [] ?o1,
              getTimeSeries_request ascii_toUpperCase None [] [] ?o1,
              getOHLC_request ascii_toUpperCase None [] [] ?o1}"
    by (rule insertI1)
  have i2: "getRates_request ascii_toUpperCase None ?o2 \<in>
             {getRates_request ascii_toUpperCase None ?o2,
              getHistoricalRates_request ascii_toUpperCase None [] ?o2,
              getTimeSeries_request ascii_toUpperCase None [] [] ?o2,
              getOHLC_request ascii_toUpperCase None [] [] ?o2}"
    by (rule insertI1)
  note t = request_query_normalized [THEN conjunct2, THEN conjunct2, THEN conjunct2,
      THEN conjunct2, rule_format]
  from t [OF i1]
  have c2: "\<exists>q. query (getRates_request ascii_toUpperCase None ?o1) = Some q \<and>
      map_of q ''symbols'' = Some ''USD,GBP''"
    by (simp add: u)
  from t [OF i2]
  have c3: "\<exists>q. query (getRates_request ascii_toUpperCase None ?o2) = Some q \<and>
      map_of q ''symbols'' = None"
    by simp
  from c0 c1 c1' c2 c3 show ?thesis by (intro conjI)
qed

section \<open>Properties of the constructor of Surepass\<close>

text \<open>
  Claim C9. The constructor of \<^verbatim>\<open>Surepass\<close> has no error of its own: it hands the prepared
  options to the constructor of the parent class. For every mode but \<^verbatim>\<open>SANDBOX\<close> the base
  URL of the prepared options is the production URL, so that an unrecognised mode gives the
  options of the mode \<^verbatim>\<open>PRODUCTION\<close>; and the base URL, the version, the content type and the
  timeout of the prepared options are fixed, whatever the caller supplied for them.
\<close>

theorem Surepass_constructor_options:
  "Surepass_constructor super options = super (Surepass_options options) \<and>
   (mode options \<noteq> JStr ''SANDBOX'' \<longrightarrow>
      baseURL (Surepass_options options) = Some ''https://kyc-api.surepass.app/api/{version}'') \<and>
   (mode options = JStr ''SANDBOX'' \<longrightarrow>
      baseURL (Surepass_options options) = Some ''https://sandbox.surepass.app/api/{version}'') \<and>
   (m \<noteq> JStr ''SANDBOX'' \<longrightarrow>
      Surepass_options (options\<lparr>mode := m\<rparr>) =
        (Surepass_options (options\<lparr>mode := JStr ''PRODUCTION''\<rparr>))\<lparr>mode := m\<rparr>) \<and>
   version (Surepass_options options) = Some ''v1'' \<and>
   contentType (Surepass_options options) = Some ''JSON'' \<and>
   timeout (Surepass_options options) = Some 10 \<and>
   Surepass_options (options\<lparr>baseURL := b, version := v, contentType := c, timeout := t\<rparr>) =
     Surepass_options options"
  by (simp add: Surepass_constructor_def Surepass_options_def)

theorem Surepass_constructor_options_witness:
  "Surepass_options \<lparr>mode = JStr ''STAGING'', baseURL = Some ''https://example.com'',
      version = Some ''v2'', contentType = Some ''XML'', timeout = Some 99, headers = None\<rparr> =
   \<lparr>mode = JStr ''STAGING'', baseURL = Some ''https://kyc-api.surepass.app/api/{version}'',
      version = Some ''v1'', contentType = Some ''JSON'', timeout = Some 10,
      headers = Some [(''Content-Type'', ''application/json''), (''Accept'', ''application/json'')]\<rparr>"
proof -
  let ?o = "\<lparr>mode = JStr ''STAGING'', baseURL = Some ''https://example.com'',
      version = Some ''v2'', contentType = Some ''XML'', timeout = Some 99, headers = None\<rparr>"
  have m: "mode ?o \<noteq> JStr ''SANDBOX''" by simp
  from Surepass_constructor_options [of id ?o "JStr ''STAGING''"] m
  have "baseURL (Surepass_options ?o) = Some ''https://kyc-api.surepass.app/api/{version}''"
    and "version (Surepass_options ?o) = Some ''v1''"
    and "contentType (Surepass_options ?o) = Some ''JSON''"
    and "timeout (Surepass_options ?o) = Some 10"
    by blast+
  moreover have "mode (Surepass_options ?o) = JStr ''STAGING''"
    and "headers (Surepass_options ?o) =
      Some [(''Content-Type'', ''application/json''), (''Accept'', ''application/json'')]"
    by (simp_all add: Surepass_options_def)
  ultimately show ?thesis
    by (cases "Surepass_options ?o") simp
qed

end
